theory Spec2Isabelle
  imports Main "HOL-Library.AList" "HOL-Library.Log_Nat"
begin

section \<open>Numbers (IEEE 754 binary64)\<close>

text \<open>
  A JavaScript Number is a binary64 value. The smallest positive one is 2 to the power
  \<open>- emin\<close>, and every finite one is an integer multiple of it: \<open>Fin n\<close> stands for
  \<open>n / 2 ^ emin\<close>. The two zeros, which the controllers cannot tell apart, are both
  \<open>Fin 0\<close>. \<open>whole k\<close> is the integer \<open>k\<close>. The binary64 values are the \<open>Fin n\<close> whose
  \<open>n\<close> has at most 53 significant bits and lies below \<open>2 ^ (1024 + emin)\<close> in magnitude,
  the two infinities and \<open>NaN\<close>; the operations below return such values.
\<close>

datatype number = Fin int | PosInf | NegInf | NaN

definition emin :: nat where
  "emin = 1074"

definition whole :: "int \<Rightarrow> number" where
  "whole k = Fin (k * 2 ^ emin)"

text \<open>
  Addition rounds the exact sum to nearest, ties to even. \<open>rne n q\<close> is the integer
  nearest to \<open>n / q\<close>; \<open>round53\<close> keeps the 53 leading bits of its argument; a result of
  magnitude \<open>2 ^ 1024\<close> or more overflows to an infinity.
\<close>

definition rne :: "int \<Rightarrow> int \<Rightarrow> int" where
  "rne n q =
    (let d = n div q; r = n mod q
     in if 2 * r < q then d else if q < 2 * r then d + 1 else if even d then d else d + 1)"

definition round53 :: "int \<Rightarrow> int" where
  "round53 n = (let s = nat (bitlen \<bar>n\<bar> - 53) in 2 ^ s * rne n (2 ^ s))"

definition fl :: "int \<Rightarrow> number" where
  "fl n =
    (let v = round53 n
     in if 2 ^ (1024 + emin) \<le> v then PosInf
        else if v \<le> - (2 ^ (1024 + emin)) then NegInf else Fin v)"

fun js_add :: "number \<Rightarrow> number \<Rightarrow> number" where
  "js_add (Fin a) (Fin b) = fl (a + b)"
| "js_add NaN y = NaN"
| "js_add x NaN = NaN"
| "js_add PosInf NegInf = NaN"
| "js_add NegInf PosInf = NaN"
| "js_add PosInf y = PosInf"
| "js_add x PosInf = PosInf"
| "js_add NegInf y = NegInf"
| "js_add x NegInf = NegInf"

fun js_neg :: "number \<Rightarrow> number" where
  "js_neg (Fin a) = Fin (- a)"
| "js_neg PosInf = NegInf"
| "js_neg NegInf = PosInf"
| "js_neg NaN = NaN"

definition js_sub :: "number \<Rightarrow> number \<Rightarrow> number" where
  "js_sub x y = js_add x (js_neg y)"

fun js_less :: "number \<Rightarrow> number \<Rightarrow> bool" where
  "js_less (Fin a) (Fin b) = (a < b)"
| "js_less NaN y = False"
| "js_less x NaN = False"
| "js_less NegInf NegInf = False"
| "js_less NegInf y = True"
| "js_less PosInf y = False"
| "js_less x PosInf = True"
| "js_less x NegInf = False"

text \<open>\<open>undefined\<close>, the value of an absent property, is \<open>NaN\<close> in arithmetic.\<close>

definition to_number :: "number option \<Rightarrow> number" where
  "to_number v = (case v of Some x \<Rightarrow> x | None \<Rightarrow> NaN)"

section \<open>Values and schemas (models/product.mjs)\<close>

text \<open>
  A field value is one of the four types the schemas declare. A request body is an
  association list from field names to such values.
\<close>

datatype fval =
    Num number
  | Str string
  | StrList "string list"
  | StrMap "(string \<times> string) list"

datatype ftype = TNumber | TString | TStrings | TMapOfString

text \<open>One schema path: its name, its \<open>type\<close>, \<open>required\<close> and \<open>default\<close>.\<close>

datatype path = Path (pname: string) (ptype: ftype) (required: bool) (dflt: "fval option")

type_synonym reqbody = "(string \<times> fval) list"

definition ProductSchema :: "path list" where
  "ProductSchema =
    [Path ''id'' TNumber True None,
     Path ''name'' TString True None,
     Path ''description'' TString False (Some (Str ''Sin descripcion'')),
     Path ''category'' TString True None,
     Path ''numberCategory'' TNumber True None,
     Path ''price'' TNumber True None,
     Path ''stock'' TNumber False (Some (Num (whole 50)))]"

text \<open>The base model and its four discriminators.\<close>

datatype kind = Product | Electronics | Food | Automotive | Clothing

fun discriminator :: "kind \<Rightarrow> path list" where
  "discriminator Product = []"
| "discriminator Electronics =
    [Path ''features'' TStrings True None,
     Path ''warrantyYears'' TNumber False (Some (Num (whole 2)))]"
| "discriminator Food =
    [Path ''ingredients'' TStrings True None,
     Path ''weightOrVolume'' TString True None,
     Path ''flavors'' TStrings False (Some (StrList [''Original''])),
     Path ''expirationDays'' TNumber False (Some (Num (whole 30)))]"
| "discriminator Automotive =
    [Path ''specs'' TMapOfString True None,
     Path ''warrantyYears'' TNumber False (Some (Num (whole 2))),
     Path ''modelYear'' TNumber True None]"
| "discriminator Clothing =
    [Path ''sizesAvaiable'' TStrings True None,
     Path ''colors'' TStrings True None,
     Path ''material'' TString True None]"

definition schema_of :: "kind \<Rightarrow> path list" where
  "schema_of k = ProductSchema @ discriminator k"

section \<open>Documents (the Mongoose contract the controllers rely on)\<close>

text \<open>
  Mongoose is not part of the repository; the controllers use it through
  \<open>new Model(body)\<close>, \<open>findById\<close>, \<open>find\<close>, \<open>save\<close>, \<open>overwrite\<close> and
  \<open>deleteOne\<close>. The definitions of this section state the contract assumed for them:
  \<^item> a document carries the model it was built with (the discriminator key), the values
    of its set paths, and the paths whose value could not be cast; its \<open>_id\<close> is the key
    under which the collection holds it;
  \<^item> the constructor keeps only the paths of the model's schema (strict mode), takes a
    body value of the declared type as it is (a Number that is not \<open>NaN\<close>), records
    any other value as a cast failure, and fills an absent path with its default; an array path has the implicit
    default \<open>[]\<close>. Conversions between JSON types are not modelled: a body is expected
    to carry values of the declared types;
  \<^item> validation, run by \<open>save\<close> before anything is written, rejects a document with a cast
    failure or with a required path that is unset or holds the empty string; an array,
    empty or not, satisfies \<open>required\<close>.
\<close>

record doc =
  kind :: kind
  vals :: "(string \<times> fval) list"
  cast_errors :: "string list"

fun has_type :: "ftype \<Rightarrow> fval \<Rightarrow> bool" where
  "has_type TNumber (Num n) = (n \<noteq> NaN)"
| "has_type TString (Str s) = True"
| "has_type TStrings (StrList xs) = True"
| "has_type TMapOfString (StrMap m) = True"
| "has_type t v = False"

definition init_path :: "reqbody \<Rightarrow> path \<Rightarrow> (string \<times> fval) list" where
  "init_path b p =
    (case map_of b (pname p) of
       Some v \<Rightarrow> (if has_type (ptype p) v then [(pname p, v)] else [])
     | None \<Rightarrow>
        (case dflt p of
           Some d \<Rightarrow> [(pname p, d)]
         | None \<Rightarrow> (if ptype p = TStrings then [(pname p, StrList [])] else [])))"

definition cast_failed :: "reqbody \<Rightarrow> path \<Rightarrow> bool" where
  "cast_failed b p =
    (case map_of b (pname p) of Some v \<Rightarrow> \<not> has_type (ptype p) v | None \<Rightarrow> False)"

definition new_doc :: "kind \<Rightarrow> reqbody \<Rightarrow> doc" where
  "new_doc k b =
    \<lparr>kind = k,
     vals = concat (map (init_path b) (schema_of k)),
     cast_errors = map pname (filter (cast_failed b) (schema_of k))\<rparr>"

datatype error =
    JsonWebTokenError string
  | TokenExpiredError string
  | CastError string
  | ValidationError "string list"
  | DuplicateKey string
  | StorageError string

fun check_required :: "fval \<Rightarrow> bool" where
  "check_required (Str s) = (s \<noteq> [])"
| "check_required v = True"

definition unset_required :: "doc \<Rightarrow> path \<Rightarrow> bool" where
  "unset_required d p =
    (required p \<and>
     (case map_of (vals d) (pname p) of None \<Rightarrow> True | Some v \<Rightarrow> \<not> check_required v))"

definition invalid_paths :: "doc \<Rightarrow> string list" where
  "invalid_paths d =
    cast_errors d @ map pname (filter (unset_required d) (schema_of (kind d)))"

definition validate_doc :: "doc \<Rightarrow> error option" where
  "validate_doc d =
    (if invalid_paths d = [] then None else Some (ValidationError (invalid_paths d)))"

section \<open>The collection\<close>

text \<open>
  The \<open>products\<close> collection is an association list from \<open>_id\<close> to the stored document,
  in storage order. \<open>outage\<close> is the failure, if any, with which every access to the
  database is rejected during the request.
\<close>

type_synonym store = "(string \<times> doc) list"

record payload =
  sub :: string
  password :: string
  exp :: int

record env =
  jwt_sign :: "payload \<Rightarrow> error + string"
  jwt_verify :: "string option \<Rightarrow> error + payload"
  clock :: int
  outage :: "error option"
  next_oid :: string

definition is_hex :: "char \<Rightarrow> bool" where
  "is_hex c = (c \<in> set ''0123456789abcdefABCDEF'')"

definition is_object_id :: "string \<Rightarrow> bool" where
  "is_object_id i = (length i = 24 \<and> list_all is_hex i)"

text \<open>
  An identifier is cast to an ObjectId, whose 24 hexadecimal digits are kept in lower
  case: \<open>object_id i\<close> is the \<open>_id\<close> the string \<open>i\<close> denotes.
\<close>

definition lower_hex :: "char \<Rightarrow> char" where
  "lower_hex c =
    (if c = CHR ''A'' then CHR ''a'' else if c = CHR ''B'' then CHR ''b''
     else if c = CHR ''C'' then CHR ''c'' else if c = CHR ''D'' then CHR ''d''
     else if c = CHR ''E'' then CHR ''e'' else if c = CHR ''F'' then CHR ''f'' else c)"

definition object_id :: "string \<Rightarrow> string" where
  "object_id i = map lower_hex i"

definition find_all :: "env \<Rightarrow> store \<Rightarrow> error + (string \<times> doc) list" where
  "find_all e s = (case outage e of Some err \<Rightarrow> Inl err | None \<Rightarrow> Inr s)"

definition findById :: "env \<Rightarrow> store \<Rightarrow> string \<Rightarrow> error + doc option" where
  "findById e s i =
    (if \<not> is_object_id i then Inl (CastError ''_id'')
     else case outage e of Some err \<Rightarrow> Inl err | None \<Rightarrow> Inr (map_of s (object_id i)))"

text \<open>
  The unique index on \<open>id\<close>: a write that sets \<open>id\<close> to a value another stored
  document has is rejected. \<open>save\<close> writes the modified paths only, so a document
  whose \<open>id\<close> is the stored one passes.
\<close>

definition id_of :: "doc \<Rightarrow> fval option" where
  "id_of d = map_of (vals d) ''id''"

definition id_taken :: "store \<Rightarrow> string \<Rightarrow> doc \<Rightarrow> bool" where
  "id_taken s i d = list_ex (\<lambda>(k, d'). k \<noteq> i \<and> id_of d' = id_of d) s"

definition id_modified :: "store \<Rightarrow> string \<Rightarrow> doc \<Rightarrow> bool" where
  "id_modified s i d = (case map_of s i of Some old \<Rightarrow> id_of old \<noteq> id_of d | None \<Rightarrow> True)"

text \<open>
  \<open>save_doc e s i new d\<close> is \<open>d.save()\<close> for the document \<open>d\<close> with \<open>_id\<close> \<open>i\<close>, where
  \<open>new\<close> tells a document made by a constructor from one loaded by a query.
\<close>

definition save_doc :: "env \<Rightarrow> store \<Rightarrow> string \<Rightarrow> bool \<Rightarrow> doc \<Rightarrow> error + (doc \<times> store)" where
  "save_doc e s i new d =
    (case validate_doc d of
       Some err \<Rightarrow> Inl err
     | None \<Rightarrow>
        (case outage e of
           Some err \<Rightarrow> Inl err
         | None \<Rightarrow>
            if new \<and> map_of s i \<noteq> None then Inl (DuplicateKey ''_id'')
            else if id_modified s i d \<and> id_taken s i d then Inl (DuplicateKey ''id'')
            else Inr (d, AList.update i d s)))"

definition deleteOne :: "env \<Rightarrow> store \<Rightarrow> string \<Rightarrow> error + (nat \<times> store)" where
  "deleteOne e s i =
    (case outage e of
       Some err \<Rightarrow> Inl err
     | None \<Rightarrow> Inr (if map_of s i = None then 0 else 1, AList.delete i s))"

text \<open>
  \<open>overwrite\<close> visits the paths set in the stored document and gives each the value the
  argument has for it, unsetting it when the argument has none; the discriminator key
  is skipped (and so is \<open>_id\<close>, which stays the key of the document).
\<close>

definition overwrite :: "doc \<Rightarrow> doc \<Rightarrow> doc" where
  "overwrite d obj =
    d\<lparr>vals :=
        concat (map (\<lambda>k. case map_of (vals obj) k of Some v \<Rightarrow> [(k, v)] | None \<Rightarrow> [])
                    (map fst (vals d)))\<rparr>"

section \<open>Responses\<close>

text \<open>
  \<open>res.status(n).json(obj)\<close>: the status and the properties of the body, in the order
  the source writes them. A property whose value is \<open>undefined\<close> is left out of the
  serialised body. \<open>JMessage err\<close> is the string \<open>err.message\<close> of a caught error.
\<close>

datatype json =
    JBool bool
  | JString string
  | JNull
  | JUndefined
  | JMessage error
  | JDoc string doc
  | JDocs "(string \<times> doc) list"
  | JDeleted nat

record response =
  status :: nat
  body :: "(string \<times> json) list"

definition res_json :: "nat \<Rightarrow> (string \<times> json) list \<Rightarrow> response" where
  "res_json n obj = \<lparr>status = n, body = filter (\<lambda>(k, v). v \<noteq> JUndefined) obj\<rparr>"

section \<open>Signing in (controller of /signin)\<close>

text \<open>
  \<open>jsonwebtoken\<close> is not part of the repository: signing under the process key, and
  checking a signature and decoding its payload, are the parameters \<open>jwt_sign\<close> and
  \<open>jwt_verify\<close> of the environment (each may throw). \<open>clock\<close> is \<open>Date.now()\<close>, in milliseconds. The users are the
  records \<open>User.findOne\<close> searches; mail and password arrive as strings.
\<close>

record user =
  mail :: string
  password :: string

definition loggin :: "env \<Rightarrow> user list \<Rightarrow> string \<Rightarrow> string \<Rightarrow> response" where
  "loggin e users m pw =
    (case find (\<lambda>u. mail u = m) users of
       Some userlog \<Rightarrow>
        (if user.password userlog = pw then
           (case jwt_sign e \<lparr>sub = ''Token'', payload.password = pw, exp = clock e + 60 * 30000\<rparr> of
              Inr token \<Rightarrow>
                res_json 200 [(''state'', JBool True), (''message'', JString ''Logged In''),
                              (''token'', JString token)]
            | Inl err \<Rightarrow> res_json 500 [(''state'', JBool False), (''message'', JMessage err)])
         else res_json 404 [(''state'', JBool False), (''message'', JString ''Password is Wrong''),
                            (''token'', JNull)])
     | None \<Rightarrow>
        res_json 403 [(''state'', JBool False),
                      (''message'', JString (''User Don'' @ [CHR 0x27] @ ''t Exist'')),
                      (''token'', JNull)])"

section \<open>The authorization check (validate)\<close>

text \<open>\<open>aux.split(" ")\<close>: the pieces between single spaces, empty pieces included.\<close>

fun split_on :: "char \<Rightarrow> string \<Rightarrow> string list" where
  "split_on c [] = [[]]"
| "split_on c (x # xs) =
    (if x = c then [] # split_on c xs
     else (case split_on c xs of w # ws \<Rightarrow> (x # w) # ws | [] \<Rightarrow> [[x]]))"

definition nth_opt :: "'a list \<Rightarrow> nat \<Rightarrow> 'a option" where
  "nth_opt xs n = (if n < length xs then Some (xs ! n) else None)"

text \<open>
  \<open>jwt.verify(token, key)\<close>. Checking the signature and decoding the payload is the
  parameter \<open>jwt_verify\<close> of the environment; the library then reads the \<open>exp\<close> field
  as seconds since the epoch and throws once the clock, in whole seconds, has reached it.
\<close>

definition verify :: "env \<Rightarrow> string option \<Rightarrow> error + payload" where
  "verify e token =
    (case jwt_verify e token of
       Inl err \<Rightarrow> Inl err
     | Inr pl \<Rightarrow>
        if exp pl \<le> clock e div 1000 then Inl (TokenExpiredError ''jwt expired'') else Inr pl)"

text \<open>\<open>validate\<close> returns \<open>true\<close> or a string; it throws what \<open>jwt.verify\<close> throws.\<close>

datatype validation = Valid | Reason string

definition validate :: "env \<Rightarrow> string option \<Rightarrow> error + validation" where
  "validate e aux =
    (case aux of
       Some h \<Rightarrow>
        (case verify e (nth_opt (split_on (CHR '' '') h) 1) of
           Inl err \<Rightarrow> Inl err
         | Inr pl \<Rightarrow> if clock e > exp pl then Inr (Reason ''Session Expired'') else Inr Valid)
     | None \<Rightarrow>
        Inr (Reason ''The session has not been logged in or the token has not been entered.''))"

section \<open>The product controllers\<close>

definition getAll :: "env \<Rightarrow> store \<Rightarrow> response \<times> store" where
  "getAll e s =
    (case find_all e s of
       Inr result \<Rightarrow> (res_json 200 [(''state'', JBool True), (''data'', JDocs result)], s)
     | Inl err \<Rightarrow> (res_json 500 [(''state'', JBool False), (''message'', JUndefined)], s))"

definition getById :: "env \<Rightarrow> string \<Rightarrow> store \<Rightarrow> response \<times> store" where
  "getById e i s =
    (case findById e s i of
       Inr result \<Rightarrow>
        (res_json 200 [(''state'', JBool True),
                       (''data'', case result of Some d \<Rightarrow> JDoc (object_id i) d | None \<Rightarrow> JNull)], s)
     | Inl err \<Rightarrow> (res_json 500 [(''state'', JBool False), (''error'', JMessage err)], s))"

definition numberCategory :: "doc \<Rightarrow> number option" where
  "numberCategory d = (case map_of (vals d) ''numberCategory'' of Some (Num c) \<Rightarrow> Some c | _ \<Rightarrow> None)"

text \<open>Lines 83 to 102 of the controllers: the instance \<open>save\<close> persists.\<close>

definition save_product :: "reqbody \<Rightarrow> doc" where
  "save_product b =
    (let product = new_doc Product b in
     if numberCategory product = Some (whole 1) then new_doc Electronics b
     else if numberCategory product = Some (whole 2) then new_doc Food b
     else if numberCategory product = Some (whole 3) then new_doc Automotive b
     else if numberCategory product = Some (whole 4) then new_doc Clothing b
     else product)"

definition unauthorized :: "string \<Rightarrow> response" where
  "unauthorized valid = res_json 401 [(''error'', JString valid)]"

definition internal_error :: "error \<Rightarrow> response" where
  "internal_error err = res_json 500 [(''state'', JBool False), (''message'', JMessage err)]"

definition not_found :: "string \<Rightarrow> response" where
  "not_found msg = res_json 404 [(''state'', JBool False), (''message'', JString msg), (''data'', JNull)]"

definition save :: "env \<Rightarrow> string option \<Rightarrow> reqbody \<Rightarrow> store \<Rightarrow> response \<times> store" where
  "save e token b s =
    (case validate e token of
       Inl err \<Rightarrow> (internal_error err, s)
     | Inr (Reason valid) \<Rightarrow> (unauthorized valid, s)
     | Inr Valid \<Rightarrow>
        (case save_doc e s (next_oid e) True (save_product b) of
           Inl err \<Rightarrow> (internal_error err, s)
         | Inr (result, s') \<Rightarrow>
            (res_json 201 [(''state'', JBool True), (''data'', JDoc (next_oid e) result)], s')))"

definition eliminate :: "env \<Rightarrow> string option \<Rightarrow> string \<Rightarrow> store \<Rightarrow> response \<times> store" where
  "eliminate e token i s =
    (case validate e token of
       Inl err \<Rightarrow> (internal_error err, s)
     | Inr (Reason valid) \<Rightarrow> (unauthorized valid, s)
     | Inr Valid \<Rightarrow>
        (case findById e s i of
           Inl err \<Rightarrow> (internal_error err, s)
         | Inr None \<Rightarrow> (not_found ''ID Company Not Found'', s)
         | Inr (Some product) \<Rightarrow>
            (case deleteOne e s (object_id i) of
               Inl err \<Rightarrow> (internal_error err, s)
             | Inr (n, s') \<Rightarrow>
                (res_json 200 [(''state'', JBool True), (''data'', JDeleted n)], s'))))"

text \<open>Lines 148 to 168 of the controllers: the instance \<open>actualize\<close> overwrites with.\<close>

definition actualize_productN :: "reqbody \<Rightarrow> doc" where
  "actualize_productN b =
    (let productN = new_doc Product b in
     if numberCategory productN = Some (whole 1) then new_doc Electronics b
     else if numberCategory productN = Some (whole 2) then new_doc Food b
     else if numberCategory productN = Some (whole 3) then new_doc Automotive b
     else if numberCategory productN = Some (whole 4) then new_doc Clothing b
     else productN)"

definition actualize ::
  "env \<Rightarrow> string option \<Rightarrow> string \<Rightarrow> reqbody \<Rightarrow> store \<Rightarrow> response \<times> store" where
  "actualize e token i b s =
    (case validate e token of
       Inl err \<Rightarrow> (internal_error err, s)
     | Inr (Reason valid) \<Rightarrow> (unauthorized valid, s)
     | Inr Valid \<Rightarrow>
        (case findById e s i of
           Inl err \<Rightarrow> (internal_error err, s)
         | Inr None \<Rightarrow> (not_found ''ID Company Not Found'', s)
         | Inr (Some product) \<Rightarrow>
            (case save_doc e s (object_id i) False (overwrite product (actualize_productN b)) of
               Inl err \<Rightarrow> (internal_error err, s)
             | Inr (result, s') \<Rightarrow>
                (res_json 201 [(''state'', JBool True), (''data'', JDoc (object_id i) result)],
                 s'))))"

text \<open>
  Reading and assigning \<open>product.stock\<close>. Assigning \<open>NaN\<close> is a cast failure, which
  \<open>save\<close> reports.
\<close>

definition stock :: "doc \<Rightarrow> number option" where
  "stock d = (case map_of (vals d) ''stock'' of Some (Num n) \<Rightarrow> Some n | _ \<Rightarrow> None)"

definition set_stock :: "doc \<Rightarrow> number \<Rightarrow> doc" where
  "set_stock d v =
    (if v = NaN then d\<lparr>cast_errors := ''stock'' # cast_errors d\<rparr>
     else d\<lparr>vals := AList.update ''stock'' (Num v) (vals d)\<rparr>)"

definition providerProducts ::
  "env \<Rightarrow> string option \<Rightarrow> string \<Rightarrow> number option \<Rightarrow> store \<Rightarrow> response \<times> store" where
  "providerProducts e token i nStock s =
    (case validate e token of
       Inl err \<Rightarrow> (internal_error err, s)
     | Inr (Reason valid) \<Rightarrow> (unauthorized valid, s)
     | Inr Valid \<Rightarrow>
        (case findById e s i of
           Inl err \<Rightarrow> (internal_error err, s)
         | Inr None \<Rightarrow> (not_found ''ID Product Not Found'', s)
         | Inr (Some product) \<Rightarrow>
            (case save_doc e s (object_id i) False
                    (set_stock product (js_add (to_number (stock product)) (to_number nStock))) of
               Inl err \<Rightarrow> (internal_error err, s)
             | Inr (result, s') \<Rightarrow>
                (res_json 201 [(''state'', JBool True), (''data'', JDoc (object_id i) result)],
                 s'))))"

definition sellProducts ::
  "env \<Rightarrow> string option \<Rightarrow> string \<Rightarrow> number option \<Rightarrow> store \<Rightarrow> response \<times> store" where
  "sellProducts e token i sStock s =
    (case validate e token of
       Inl err \<Rightarrow> (internal_error err, s)
     | Inr (Reason valid) \<Rightarrow> (unauthorized valid, s)
     | Inr Valid \<Rightarrow>
        (case findById e s i of
           Inl err \<Rightarrow> (internal_error err, s)
         | Inr None \<Rightarrow> (not_found ''ID Product Not Found'', s)
         | Inr (Some product) \<Rightarrow>
            (if js_less (js_sub (to_number (stock product)) (to_number sStock)) (whole 5) then
               (res_json 400 [(''state'', JBool False),
                              (''message'', JString ''Stock is less than 5''),
                              (''data'', JNull)], s)
             else
               (case save_doc e s (object_id i) False
                       (set_stock product
                          (js_sub (to_number (stock product)) (to_number sStock))) of
                  Inl err \<Rightarrow> (internal_error err, s)
                | Inr (result, s') \<Rightarrow>
                   (res_json 201 [(''state'', JBool True), (''data'', JDoc (object_id i) result)],
                    s')))))"

section \<open>The routes (routes/products.mjs)\<close>

datatype call =
    GetAll
  | GetById string
  | Save reqbody
  | Actualize string reqbody
  | Eliminate string
  | ProviderProducts string "number option"
  | SellProducts string "number option"

record request =
  authorization :: "string option"
  call :: call

fun routes :: "env \<Rightarrow> request \<Rightarrow> store \<Rightarrow> response \<times> store" where
  "routes e req s =
    (case call req of
       GetAll \<Rightarrow> getAll e s
     | GetById i \<Rightarrow> getById e i s
     | Save b \<Rightarrow> save e (authorization req) b s
     | Actualize i b \<Rightarrow> actualize e (authorization req) i b s
     | Eliminate i \<Rightarrow> eliminate e (authorization req) i s
     | ProviderProducts i nStock \<Rightarrow> providerProducts e (authorization req) i nStock s
     | SellProducts i sStock \<Rightarrow> sellProducts e (authorization req) i sStock s)"

section \<open>The invariant of the collection\<close>

text \<open>
  Every stored document passes the validation of its model. A document is complete
  when it holds a value for every path of its model, in the order of the schema, as
  every document built by a constructor and accepted by \<open>save\<close> does.
\<close>

definition stored_valid :: "store \<Rightarrow> bool" where
  "stored_valid s = list_all (\<lambda>(k, d). validate_doc d = None) s"

definition complete :: "doc \<Rightarrow> bool" where
  "complete d = (map fst (vals d) = map pname (schema_of (kind d)))"

section \<open>A sample catalogue\<close>

text \<open>
  One signed-in session and one stored Electronics product, the example of the
  specification's test plan (stock 10), at which the theorems below are instantiated.
\<close>

definition sample_token :: string where
  "sample_token = ''header.payload.signature''"

definition sample_env :: env where
  "sample_env =
    \<lparr>jwt_sign = (\<lambda>pl. Inr sample_token),
     jwt_verify = (\<lambda>tok. if tok = Some sample_token
                          then Inr \<lparr>sub = ''Token'', payload.password = ''secret'', exp = 1000 + 60 * 30000\<rparr>
                          else Inl (JsonWebTokenError ''invalid token'')),
     clock = 2000,
     outage = None,
     next_oid = ''65f0a1b2c3d4e5f6a7b8c9d1''\<rparr>"

definition sample_users :: "user list" where
  "sample_users = [\<lparr>mail = ''ana@example.com'', user.password = ''secret''\<rparr>]"

definition sample_id :: string where
  "sample_id = ''65f0a1b2c3d4e5f6a7b8c9d0''"

definition sample_body :: reqbody where
  "sample_body =
    [(''id'', Num (whole 1001)), (''name'', Str ''Laptop''), (''category'', Str ''Tecnologia''),
     (''numberCategory'', Num (whole 1)), (''price'', Num (whole 1299)),
     (''stock'', Num (whole 10)), (''features'', StrList [''x''])]"

definition sample_product :: doc where
  "sample_product = new_doc Electronics sample_body"

definition sample_store :: store where
  "sample_store = [(sample_id, sample_product)]"

text \<open>
  The same product with stock 11, and with stock \<open>2 ^ 53\<close>, where binary64 addition
  starts to round.
\<close>

definition sample_odd :: doc where
  "sample_odd = set_stock sample_product (whole 11)"

definition sample_big :: doc where
  "sample_big = set_stock sample_product (whole 9007199254740992)"

text \<open>
  More request bodies: a Food payload without \<open>weightOrVolume\<close>, a complete Food
  payload, a payload whose category code is 9 and the base record it makes, a new
  version of the stored product that names no stock, and a body with a category code
  and nothing else.
\<close>

definition sample_food :: reqbody where
  "sample_food =
    [(''id'', Num (whole 2001)), (''name'', Str ''Cafe''), (''category'', Str ''Alimentos''),
     (''numberCategory'', Num (whole 2)), (''price'', Num (whole 12)),
     (''ingredients'', StrList [''cafe''])]"

definition sample_food_full :: reqbody where
  "sample_food_full = sample_food @ [(''weightOrVolume'', Str ''500 g'')]"

definition sample_uncoded :: reqbody where
  "sample_uncoded =
    [(''id'', Num (whole 9001)), (''name'', Str ''Caja''), (''category'', Str ''Varios''),
     (''numberCategory'', Num (whole 9)), (''price'', Num (whole 3)),
     (''features'', StrList [''x''])]"

definition sample_update :: reqbody where
  "sample_update =
    [(''id'', Num (whole 1001)), (''name'', Str ''Laptop Pro''), (''category'', Str ''Tecnologia''),
     (''numberCategory'', Num (whole 1)), (''price'', Num (whole 1499)),
     (''features'', StrList [''y'', ''z'']), (''warrantyYears'', Num (whole 3))]"

definition sample_base :: doc where
  "sample_base = new_doc Product sample_uncoded"

definition sample_codeonly :: reqbody where
  "sample_codeonly = [(''numberCategory'', Num (whole 1))]"

section \<open>Binary64 arithmetic on integers\<close>

text \<open>
  A sum or difference of integers that is at most \<open>2 ^ 53\<close> in magnitude is computed
  exactly; beyond that, it is rounded.
\<close>

lemma rne_dvd: "0 < q \<Longrightarrow> q dvd n \<Longrightarrow> q * rne n q = n"
  by (auto simp: rne_def Let_def)

lemma round53_dvd:
  assumes "2 ^ nat (bitlen \<bar>n\<bar> - 53) dvd n"
  shows "round53 n = n"
  using assms by (simp add: round53_def Let_def rne_dvd)

lemma round53_scaled:
  assumes "\<bar>k\<bar> \<le> 2 ^ 53"
  shows "round53 (k * 2 ^ m) = k * 2 ^ m"
proof (cases "k = 0")
  case True
  then show ?thesis by (simp add: round53_def rne_def)
next
  case False
  then have pos: "0 < \<bar>k\<bar>" by simp
  have len: "bitlen \<bar>k * 2 ^ m\<bar> = bitlen \<bar>k\<bar> + int m"
    using bitlen_pow2 [OF pos, of m] by (simp add: abs_mult)
  have le54: "bitlen \<bar>k\<bar> \<le> 54"
    using assms by (simp add: bitlen_le_iff_power)
  have "(2::int) ^ nat (bitlen \<bar>k\<bar> + int m - 53) dvd k * 2 ^ m"
  proof (cases "bitlen \<bar>k\<bar> \<le> 53")
    case True
    then have "nat (bitlen \<bar>k\<bar> + int m - 53) \<le> m" by simp
    then have "(2::int) ^ nat (bitlen \<bar>k\<bar> + int m - 53) dvd 2 ^ m"
      by (rule le_imp_power_dvd)
    then show ?thesis by (rule dvd_mult)
  next
    case False
    with le54 have eq: "bitlen \<bar>k\<bar> = 54" by simp
    then have "(2::int) ^ 53 \<le> \<bar>k\<bar>"
      using bitlen_ge_iff_power [of 54 "\<bar>k\<bar>"] by simp
    with assms have "\<bar>k\<bar> = 2 ^ 53" by simp
    then have "k = 2 ^ 53 \<or> k = - (2 ^ 53)" by (auto simp: abs_if split: if_splits)
    then have "(2::int) ^ (53 + m) dvd k * 2 ^ m"
      by (auto simp only: power_add mult_minus_left dvd_minus_iff dvd_refl)
    moreover have "(2::int) ^ nat (1 + int m) dvd 2 ^ (53 + m)"
      by (rule le_imp_power_dvd) simp
    ultimately have "(2::int) ^ nat (1 + int m) dvd k * 2 ^ m" by (rule dvd_trans [rotated])
    then show ?thesis by (simp add: eq)
  qed
  then show ?thesis by (intro round53_dvd) (simp add: len)
qed

lemma fl_whole:
  assumes "\<bar>k\<bar> \<le> 2 ^ 53"
  shows "fl (k * 2 ^ emin) = whole k"
proof -
  have "\<bar>k * 2 ^ emin\<bar> \<le> 2 ^ 53 * 2 ^ emin"
    using assms by (simp add: abs_mult)
  also have "\<dots> < (2::int) ^ 1024 * 2 ^ emin" by simp
  finally have "\<bar>k * 2 ^ emin\<bar> < 2 ^ (1024 + emin)" by (simp only: power_add)
  then have "\<not> 2 ^ (1024 + emin) \<le> k * 2 ^ emin" and "\<not> k * 2 ^ emin \<le> - (2 ^ (1024 + emin))"
    by linarith+
  then show ?thesis
    by (simp only: fl_def Let_def round53_scaled [OF assms] whole_def if_False)
qed

lemma js_add_whole:
  assumes "\<bar>a + b\<bar> \<le> 2 ^ 53"
  shows "js_add (whole a) (whole b) = whole (a + b)"
  using fl_whole [OF assms] by (simp add: whole_def distrib_right)

lemma js_sub_whole:
  assumes "\<bar>a - b\<bar> \<le> 2 ^ 53"
  shows "js_sub (whole a) (whole b) = whole (a - b)"
  using fl_whole [OF assms] by (simp add: js_sub_def whole_def left_diff_distrib)

lemma js_less_whole: "js_less (whole a) (whole b) \<longleftrightarrow> a < b"
  by (simp add: whole_def)

lemma whole_eq_iff: "whole a = whole b \<longleftrightarrow> a = b"
  by (simp add: whole_def)

lemma whole_not_NaN: "whole a \<noteq> NaN"
  by (simp add: whole_def)

lemma not_less_NaN: "\<not> js_less NaN y"
  by simp

text \<open>Two sums beyond \<open>2 ^ 53\<close>: a tie rounded up to the even neighbour, and one rounded down.\<close>

lemma eleven_plus_2_53:
  "js_add (whole 11) (whole 9007199254740992) = whole 9007199254741004"
  by code_simp

lemma two_53_plus_one:
  "js_add (whole 9007199254740992) (whole 1) = whole 9007199254740992"
  by code_simp

text \<open>
  Quantities need not be integers. The binary64 value of 3.2 is
  \<open>3602879701896397 / 2 ^ 50\<close>; adding it to 5 and subtracting it again gives less than 5.
\<close>

lemma five_plus_fraction_minus_fraction:
  "js_less
     (js_sub (js_add (whole 5) (Fin (3602879701896397 * 2 ^ 1024)))
        (Fin (3602879701896397 * 2 ^ 1024)))
     (whole 5)"
  by code_simp

section \<open>Reading, validating and writing documents\<close>

lemma findById_InrD:
  "findById e s i = Inr r \<Longrightarrow> is_object_id i \<and> outage e = None \<and> r = map_of s (object_id i)"
  by (auto simp: findById_def split: if_splits option.splits)

lemma stock_SomeD: "stock d = Some n \<Longrightarrow> map_of (vals d) ''stock'' = Some (Num n)"
  by (auto simp: stock_def split: option.splits fval.splits)

lemma stock_set_stock: "v \<noteq> NaN \<Longrightarrow> stock (set_stock d v) = Some v"
  by (simp add: stock_def set_stock_def update_conv')

lemma id_of_set_stock: "id_of (set_stock d v) = id_of d"
  by (simp add: id_of_def set_stock_def update_conv')

lemma stock_path_optional:
  "p \<in> set (schema_of k) \<Longrightarrow> pname p = ''stock'' \<Longrightarrow> \<not> required p"
  by (cases k) (auto simp: schema_of_def ProductSchema_def)

lemma unset_required_set_stock:
  assumes "p \<in> set (schema_of (kind d))" and "v \<noteq> NaN"
  shows "unset_required (set_stock d v) p = unset_required d p"
proof (cases "pname p = ''stock''")
  case True
  with assms(1) have "\<not> required p" by (rule stock_path_optional)
  then show ?thesis by (simp add: unset_required_def)
next
  case False
  then show ?thesis using assms(2) by (simp add: unset_required_def set_stock_def update_conv')
qed

lemma invalid_paths_set_stock:
  assumes "v \<noteq> NaN"
  shows "invalid_paths (set_stock d v) = invalid_paths d"
proof -
  have k: "kind (set_stock d v) = kind d"
    and c: "cast_errors (set_stock d v) = cast_errors d"
    using assms by (simp_all add: set_stock_def)
  have "filter (unset_required (set_stock d v)) (schema_of (kind d)) =
        filter (unset_required d) (schema_of (kind d))"
    by (rule filter_cong) (simp_all add: unset_required_set_stock assms)
  then show ?thesis by (simp add: invalid_paths_def k c)
qed

lemma validate_doc_set_stock:
  "v \<noteq> NaN \<Longrightarrow> validate_doc (set_stock d v) = validate_doc d"
  by (simp add: validate_doc_def invalid_paths_set_stock)

lemma set_stock_NaN_invalid: "''stock'' \<in> set (invalid_paths (set_stock d NaN))"
  by (simp add: invalid_paths_def set_stock_def)

lemma save_doc_loaded:
  assumes "validate_doc d = None" and "outage e = None"
    and "map_of s k = Some old" and "id_of d = id_of old"
  shows "save_doc e s k False d = Inr (d, AList.update k d s)"
  using assms by (simp add: save_doc_def id_modified_def)

lemma save_doc_invalid:
  assumes "x \<in> set (invalid_paths d)"
  shows "save_doc e s k new d = Inl (ValidationError (invalid_paths d))"
  using assms by (auto simp: save_doc_def validate_doc_def)

lemma save_set_stock:
  assumes "findById e s i = Inr (Some product)" and "validate_doc product = None"
    and "v \<noteq> NaN"
  shows "save_doc e s (object_id i) False (set_stock product v) =
         Inr (set_stock product v, AList.update (object_id i) (set_stock product v) s)"
proof -
  from assms(1) have "outage e = None" and "map_of s (object_id i) = Some product"
    by (auto dest: findById_InrD)
  then show ?thesis
    using assms(2,3)
    by (intro save_doc_loaded) (simp_all add: validate_doc_set_stock id_of_set_stock)
qed

lemma findById_update:
  assumes "findById e s i = Inr r"
  shows "findById e (AList.update (object_id i) d s) i = Inr (Some d)"
  using findById_InrD [OF assms] by (simp add: findById_def update_conv')

lemma set_stock_back:
  assumes "stock d = Some st" and "st \<noteq> NaN" and "v \<noteq> NaN"
  shows "set_stock (set_stock d v) st = d"
  using stock_SomeD [OF assms(1)] assms(2,3) by (simp add: set_stock_def update_triv)

section \<open>The two stock controllers, case by case\<close>

lemma sell_below:
  assumes "validate e token = Inr Valid" and "findById e s i = Inr (Some product)"
    and "stock product = Some st" and "js_less (js_sub st q) (whole 5)"
  shows "sellProducts e token i (Some q) s =
     (res_json 400 [(''state'', JBool False), (''message'', JString ''Stock is less than 5''),
                    (''data'', JNull)], s)"
  using assms by (simp add: sellProducts_def to_number_def)

lemma sell_ok:
  assumes "validate e token = Inr Valid" and "findById e s i = Inr (Some product)"
    and "stock product = Some st" and "validate_doc product = None"
    and "\<not> js_less (js_sub st q) (whole 5)" and "js_sub st q \<noteq> NaN"
  shows "sellProducts e token i (Some q) s =
     (res_json 201 [(''state'', JBool True),
                    (''data'', JDoc (object_id i) (set_stock product (js_sub st q)))],
      AList.update (object_id i) (set_stock product (js_sub st q)) s)"
  using assms(1-3,5) save_set_stock [OF assms(2) assms(4) assms(6)]
  by (simp add: sellProducts_def to_number_def)

lemma sell_NaN:
  assumes "validate e token = Inr Valid" and "findById e s i = Inr (Some product)"
    and "stock product = Some st" and "js_sub st q = NaN"
  shows "sellProducts e token i (Some q) s =
     (res_json 500 [(''state'', JBool False),
                    (''message'', JMessage (ValidationError (invalid_paths (set_stock product NaN))))],
      s)"
  using assms save_doc_invalid [OF set_stock_NaN_invalid, of e s "object_id i" False product]
  by (simp add: sellProducts_def to_number_def internal_error_def)

lemma restock_ok:
  assumes "validate e token = Inr Valid" and "findById e s i = Inr (Some product)"
    and "stock product = Some st" and "validate_doc product = None"
    and "js_add st q \<noteq> NaN"
  shows "providerProducts e token i (Some q) s =
     (res_json 201 [(''state'', JBool True),
                    (''data'', JDoc (object_id i) (set_stock product (js_add st q)))],
      AList.update (object_id i) (set_stock product (js_add st q)) s)"
  using assms(1-3) save_set_stock [OF assms(2) assms(4) assms(5)]
  by (simp add: providerProducts_def to_number_def)


section \<open>The authorization check and the routes\<close>

lemma split_on_none: "c \<notin> set xs \<Longrightarrow> split_on c xs = [xs]"
  by (induction xs) auto

lemma split_on_prefix:
  "c \<notin> set xs \<Longrightarrow> split_on c (xs @ c # ys) = xs # split_on c ys"
  by (induction xs) auto

lemma bearer_token:
  assumes "CHR '' '' \<notin> set tok"
  shows "nth_opt (split_on (CHR '' '') (''Bearer '' @ tok)) 1 = Some tok"
proof -
  have "split_on (CHR '' '') (''Bearer'' @ CHR '' '' # tok) = ''Bearer'' # split_on (CHR '' '') tok"
    by (rule split_on_prefix) simp
  then show ?thesis using assms by (simp add: split_on_none nth_opt_def)
qed

lemma validate_verified:
  assumes "jwt_verify e (nth_opt (split_on (CHR '' '') h) 1) = Inr pl"
  shows "validate e (Some h) =
     (if exp pl \<le> clock e div 1000 then Inl (TokenExpiredError ''jwt expired'')
      else Inr (if clock e > exp pl then Reason ''Session Expired'' else Valid))"
  using assms by (simp add: validate_def verify_def)

lemma validate_reasons:
  assumes "validate e aux = Inr (Reason r)"
  shows "r = ''Session Expired'' \<or>
         r = ''The session has not been logged in or the token has not been entered.''"
  using assms by (auto simp: validate_def verify_def split: option.splits sum.splits if_splits)

lemma routes_unauthorized:
  assumes "validate e (authorization req) = Inr (Reason r)"
    and "call req \<noteq> GetAll" and "\<forall>i. call req \<noteq> GetById i"
  shows "routes e req s = (res_json 401 [(''error'', JString r)], s)"
  using assms
  by (cases "call req")
     (simp_all add: save_def actualize_def eliminate_def providerProducts_def sellProducts_def
        unauthorized_def)

lemma routes_check_throws:
  assumes "validate e (authorization req) = Inl err"
    and "call req \<noteq> GetAll" and "\<forall>i. call req \<noteq> GetById i"
  shows "routes e req s = (internal_error err, s)"
  using assms
  by (cases "call req")
     (simp_all add: save_def actualize_def eliminate_def providerProducts_def sellProducts_def)

lemma routes_reads_unchecked:
  assumes "call req = GetAll \<or> (\<exists>i. call req = GetById i)"
  shows "routes (e\<lparr>jwt_verify := v, clock := t\<rparr>) (req\<lparr>authorization := h\<rparr>) s = routes e req s"
  using assms by (auto simp: getAll_def getById_def find_all_def findById_def)

section \<open>Constructing documents\<close>

lemma map_of_init_path_other: "k \<noteq> pname p \<Longrightarrow> map_of (init_path b p) k = None"
  by (simp add: init_path_def split: option.splits)

lemma map_of_new_vals_notin:
  "k \<notin> pname ` set ps \<Longrightarrow> map_of (concat (map (init_path b) ps)) k = None"
  by (induction ps) (auto simp: map_add_def map_of_init_path_other split: option.splits)

lemma map_of_new_vals_in:
  "distinct (map pname ps) \<Longrightarrow> p \<in> set ps \<Longrightarrow>
   map_of (concat (map (init_path b) ps)) (pname p) = map_of (init_path b p) (pname p)"
proof (induction ps)
  case Nil
  then show ?case by simp
next
  case (Cons a ps)
  show ?case
  proof (cases "p = a")
    case True
    from Cons.prems have "pname a \<notin> pname ` set ps" by auto
    then have "map_of (concat (map (init_path b) ps)) (pname a) = None"
      by (rule map_of_new_vals_notin)
    then show ?thesis using True by (simp add: map_add_def split: option.splits)
  next
    case False
    with Cons.prems have in_ps: "p \<in> set ps" by simp
    from Cons.prems have "pname a \<notin> pname ` set ps" by simp
    with in_ps have ne: "pname p \<noteq> pname a" by (metis imageI)
    from Cons.prems have "distinct (map pname ps)" by simp
    from Cons.IH [OF this in_ps] ne show ?thesis
      by (simp add: map_add_def map_of_init_path_other split: option.splits)
  qed
qed

lemma distinct_schema: "distinct (map pname (schema_of k))"
  by (cases k) (simp_all add: schema_of_def ProductSchema_def)

lemma map_of_new_doc:
  "p \<in> set (schema_of k) \<Longrightarrow>
   map_of (vals (new_doc k b)) (pname p) = map_of (init_path b p) (pname p)"
  by (simp add: new_doc_def map_of_new_vals_in distinct_schema)

lemma keys_new_doc: "fst ` set (vals (new_doc k b)) \<subseteq> pname ` set (schema_of k)"
  by (auto simp: new_doc_def init_path_def split: option.splits if_splits)

lemma numberCategory_in_schema: "Path ''numberCategory'' TNumber True None \<in> set (schema_of k)"
  by (simp add: schema_of_def ProductSchema_def)

lemma numberCategory_new_doc:
  "numberCategory (new_doc k b) =
     (case map_of b ''numberCategory'' of
        Some (Num c) \<Rightarrow> if c = NaN then None else Some c
      | _ \<Rightarrow> None)"
  using map_of_new_doc [OF numberCategory_in_schema, of k b]
  by (simp add: numberCategory_def init_path_def split: option.splits fval.splits)

lemma save_product_kind: "save_product b = new_doc (kind (save_product b)) b"
  by (simp add: save_product_def Let_def new_doc_def)

lemma required_no_default:
  "p \<in> set (discriminator k) \<Longrightarrow> required p \<Longrightarrow> dflt p = None"
  by (cases k) auto

lemma omitted_invalid:
  assumes p: "p \<in> set (discriminator k)" and req: "required p"
    and ty: "ptype p \<noteq> TStrings" and om: "map_of b (pname p) = None"
  shows "pname p \<in> set (invalid_paths (new_doc k b))"
proof -
  from p have in_schema: "p \<in> set (schema_of k)" by (simp add: schema_of_def)
  have "init_path b p = []"
    using required_no_default [OF p req] ty om by (simp add: init_path_def)
  then have "map_of (vals (new_doc k b)) (pname p) = None"
    using map_of_new_doc [OF in_schema, of b] by simp
  then have "unset_required (new_doc k b) p"
    using req by (simp add: unset_required_def)
  moreover have "kind (new_doc k b) = k" by (simp add: new_doc_def)
  ultimately show ?thesis using in_schema by (auto simp: invalid_paths_def)
qed

lemma map_of_pick:
  "map_of (concat (map (\<lambda>k. case m k of Some v \<Rightarrow> [(k, v)] | None \<Rightarrow> []) ks)) k =
     (if k \<in> set ks then m k else None)"
  by (induction ks) (auto simp: map_add_def split: option.splits)

lemma map_of_overwrite:
  "map_of (vals (overwrite d obj)) k =
     (if k \<in> fst ` set (vals d) then map_of (vals obj) k else None)"
  by (simp add: overwrite_def map_of_pick del: map_map)

lemma actualize_not_found:
  assumes "validate e token = Inr Valid" and "findById e s i = Inr None"
  shows "actualize e token i b s = (not_found ''ID Company Not Found'', s)"
  using assms by (simp add: actualize_def)

section \<open>Stored documents stay valid\<close>

text \<open>
  \<open>save\<close> validates before it writes, so every route keeps the invariant; the
  theorems below assume it of the product they load.
\<close>

lemma stored_valid_update:
  "stored_valid s \<Longrightarrow> validate_doc d = None \<Longrightarrow> stored_valid (AList.update i d s)"
  by (induction s) (auto simp: stored_valid_def)

lemma stored_valid_delete: "stored_valid s \<Longrightarrow> stored_valid (AList.delete i s)"
  by (induction s) (auto simp: stored_valid_def)

lemma save_doc_stored_valid:
  "save_doc e s i new d = Inr (d', s') \<Longrightarrow> stored_valid s \<Longrightarrow> stored_valid s'"
  by (auto simp: save_doc_def stored_valid_update split: option.splits if_splits)

lemma deleteOne_stored_valid:
  "deleteOne e s i = Inr (n, s') \<Longrightarrow> stored_valid s \<Longrightarrow> stored_valid s'"
  by (auto simp: deleteOne_def stored_valid_delete split: option.splits)

lemma routes_stored_valid:
  assumes "stored_valid s"
  shows "stored_valid (snd (routes e req s))"
  using assms
  by (cases "call req")
     (auto simp: getAll_def getById_def save_def actualize_def eliminate_def
        providerProducts_def sellProducts_def
        dest: save_doc_stored_valid deleteOne_stored_valid
        split: sum.splits option.splits validation.splits prod.splits if_splits)

lemma stored_valid_found:
  "stored_valid s \<Longrightarrow> findById e s i = Inr (Some d) \<Longrightarrow> validate_doc d = None"
proof -
  assume v: "stored_valid s" and f: "findById e s i = Inr (Some d)"
  from findById_InrD [OF f] have "map_of s (object_id i) = Some d" by simp
  then have "(object_id i, d) \<in> set s" by (rule map_of_SomeD)
  with v show ?thesis by (auto simp: stored_valid_def list_all_iff)
qed

section \<open>Complete documents\<close>

text \<open>
  A document that a constructor built and \<open>save\<close> accepted is complete, and assigning
  its stock keeps it so.
\<close>

lemma init_path_shape: "init_path b p = [] \<or> (\<exists>v. init_path b p = [(pname p, v)])"
  by (simp add: init_path_def split: option.splits)

lemma path_required_or_filled:
  "p \<in> set (schema_of k) \<Longrightarrow> required p \<or> dflt p \<noteq> None \<or> ptype p = TStrings"
  by (cases k) (auto simp: schema_of_def ProductSchema_def)

lemma keys_of_filled:
  "\<forall>p \<in> set ps. init_path b p \<noteq> [] \<Longrightarrow>
   map fst (concat (map (init_path b) ps)) = map pname ps"
proof (induction ps)
  case Nil
  then show ?case by simp
next
  case (Cons a ps)
  then have "init_path b a \<noteq> []" by simp
  with init_path_shape [of b a] obtain v where "init_path b a = [(pname a, v)]" by auto
  with Cons show ?case by simp
qed

lemma valid_path_filled:
  assumes "validate_doc (new_doc k b) = None" and "p \<in> set (schema_of k)"
  shows "init_path b p \<noteq> []"
proof
  assume empty: "init_path b p = []"
  from assms(1) have none: "invalid_paths (new_doc k b) = []"
    by (simp add: validate_doc_def split: if_splits)
  show False
  proof (cases "map_of b (pname p)")
    case (Some v)
    with empty have "cast_failed b p"
      by (simp add: init_path_def cast_failed_def split: if_splits)
    with assms(2) have "pname p \<in> set (cast_errors (new_doc k b))"
      by (simp add: new_doc_def)
    with none show False by (simp add: invalid_paths_def)
  next
    case None
    with empty have "dflt p = None" and "ptype p \<noteq> TStrings"
      by (auto simp: init_path_def split: option.splits if_splits)
    with path_required_or_filled [OF assms(2)] have "required p" by simp
    moreover have "map_of (vals (new_doc k b)) (pname p) = None"
      using map_of_new_doc [OF assms(2), of b] empty by simp
    ultimately have "unset_required (new_doc k b) p" by (simp add: unset_required_def)
    with assms(2) have "pname p \<in> set (invalid_paths (new_doc k b))"
      by (auto simp: invalid_paths_def new_doc_def)
    with none show False by simp
  qed
qed

lemma new_doc_complete:
  assumes "validate_doc (new_doc k b) = None"
  shows "complete (new_doc k b)"
proof -
  have "\<forall>p \<in> set (schema_of k). init_path b p \<noteq> []"
    using valid_path_filled [OF assms] by blast
  then have "map fst (concat (map (init_path b) (schema_of k))) = map pname (schema_of k)"
    by (rule keys_of_filled)
  then show ?thesis by (simp add: complete_def new_doc_def)
qed

lemma stock_in_schema: "''stock'' \<in> set (map pname (schema_of k))"
  by (simp add: schema_of_def ProductSchema_def)

lemma set_stock_complete:
  assumes "complete d"
  shows "complete (set_stock d v)"
proof -
  from assms have "''stock'' \<in> set (map fst (vals d))"
    by (simp only: complete_def stock_in_schema)
  then have "map fst (AList.update ''stock'' (Num v) (vals d)) = map fst (vals d)"
    by (simp add: update_keys)
  with assms show ?thesis by (simp add: complete_def set_stock_def)
qed

text \<open>So every record that \<open>save\<close> creates is valid and complete.\<close>

lemma save_stores_complete:
  assumes "save e token b s = (r, s')" and "status r = 201"
  shows "map_of s' (next_oid e) = Some (save_product b)
       \<and> validate_doc (save_product b) = None \<and> complete (save_product b)"
proof -
  from assms have saved: "save_doc e s (next_oid e) True (save_product b) = Inr (save_product b, s')"
    by (auto simp: save_def save_doc_def res_json_def internal_error_def unauthorized_def
        split: sum.splits validation.splits option.splits if_splits)
  then have ok: "validate_doc (save_product b) = None"
    by (auto simp: save_doc_def split: option.splits if_splits)
  from saved have "s' = AList.update (next_oid e) (save_product b) s"
    by (auto simp: save_doc_def split: option.splits if_splits)
  then have "map_of s' (next_oid e) = Some (save_product b)" by (simp add: update_conv')
  moreover have "complete (save_product b)"
    using new_doc_complete [of "kind (save_product b)" b] ok save_product_kind [of b] by simp
  ultimately show ?thesis using ok by simp
qed

section \<open>The sample catalogue, evaluated\<close>

lemma sample_valid: "validate sample_env (Some (''Bearer '' @ sample_token)) = Inr Valid"
  by code_simp

lemma sample_object_id: "object_id sample_id = sample_id"
  by code_simp

lemma sample_found: "findById sample_env sample_store sample_id = Inr (Some sample_product)"
  by code_simp

lemma sample_stock: "stock sample_product = Some (whole 10)"
  by code_simp

lemma sample_product_valid: "validate_doc sample_product = None"
  by code_simp

lemma sample_product_complete: "complete sample_product"
  by code_simp

lemma sample_absent: "findById sample_env sample_store ''65f0a1b2c3d4e5f6a7b8c9ff'' = Inr None"
  by code_simp

lemma sample_restocked_found:
  "findById sample_env [(sample_id, set_stock sample_product v)] sample_id =
     Inr (Some (set_stock sample_product v))"
  using findById_update [OF sample_found, of "set_stock sample_product v"]
  by (simp add: sample_object_id sample_store_def)

lemma sample_odd_found: "findById sample_env [(sample_id, sample_odd)] sample_id = Inr (Some sample_odd)"
  unfolding sample_odd_def by (rule sample_restocked_found)

lemma sample_odd_stock: "stock sample_odd = Some (whole 11)"
  by (simp add: sample_odd_def stock_set_stock whole_not_NaN)

lemma sample_odd_valid: "validate_doc sample_odd = None"
  by (simp add: sample_odd_def validate_doc_set_stock whole_not_NaN sample_product_valid)

lemma sample_big_found: "findById sample_env [(sample_id, sample_big)] sample_id = Inr (Some sample_big)"
  unfolding sample_big_def by (rule sample_restocked_found)

lemma sample_big_stock: "stock sample_big = Some (whole 9007199254740992)"
  by (simp add: sample_big_def stock_set_stock whole_not_NaN)

lemma sample_big_valid: "validate_doc sample_big = None"
  by (simp add: sample_big_def validate_doc_set_stock whole_not_NaN sample_product_valid)

section \<open>Selling\<close>

text \<open>
  C1, as the code has it. For an authorized call on a stored, schema-valid product with
  stock \<open>st\<close> and a sell quantity \<open>q\<close>, the candidate is the binary64 difference
  \<open>js_sub st q\<close>. When it is less than 5 the operation answers 400 with the message
  "Stock is less than 5" and the collection is unchanged; otherwise it sets the stock
  to that candidate, writes the record, and a later lookup finds it (a candidate that
  is not a number is refused by \<open>save\<close> with 500 and nothing changes). For integers
  \<open>a\<close> and \<open>b\<close> whose difference is at most \<open>2 ^ 53\<close> in magnitude the candidate is
  exactly \<open>a - b\<close>.
\<close>

theorem sellProducts_floor:
  assumes "validate e token = Inr Valid"
    and "findById e s i = Inr (Some product)"
    and "stock product = Some st"
    and "validate_doc product = None"
  shows "(js_less (js_sub st q) (whole 5) \<longrightarrow>
            sellProducts e token i (Some q) s =
              (res_json 400 [(''state'', JBool False),
                             (''message'', JString ''Stock is less than 5''),
                             (''data'', JNull)], s))
       \<and> (\<not> js_less (js_sub st q) (whole 5) \<and> js_sub st q \<noteq> NaN \<longrightarrow>
            sellProducts e token i (Some q) s =
              (res_json 201 [(''state'', JBool True),
                             (''data'', JDoc (object_id i) (set_stock product (js_sub st q)))],
               AList.update (object_id i) (set_stock product (js_sub st q)) s)
          \<and> stock (set_stock product (js_sub st q)) = Some (js_sub st q)
          \<and> findById e (snd (sellProducts e token i (Some q) s)) i =
              Inr (Some (set_stock product (js_sub st q))))
       \<and> (js_sub st q = NaN \<longrightarrow>
            status (fst (sellProducts e token i (Some q) s)) = 500
          \<and> snd (sellProducts e token i (Some q) s) = s)
       \<and> (\<forall>a b. st = whole a \<and> q = whole b \<and> \<bar>a - b\<bar> \<le> 2 ^ 53 \<longrightarrow>
            js_sub st q = whole (a - b)
          \<and> (js_less (js_sub st q) (whole 5) \<longleftrightarrow> a - b < 5))"
proof (intro conjI impI allI)
  assume "js_less (js_sub st q) (whole 5)"
  then show "sellProducts e token i (Some q) s =
      (res_json 400 [(''state'', JBool False), (''message'', JString ''Stock is less than 5''),
                     (''data'', JNull)], s)"
    by (rule sell_below [OF assms(1-3)])
next
  assume ok: "\<not> js_less (js_sub st q) (whole 5) \<and> js_sub st q \<noteq> NaN"
  then have ge: "\<not> js_less (js_sub st q) (whole 5)" and num: "js_sub st q \<noteq> NaN" by simp_all
  show sold: "sellProducts e token i (Some q) s =
      (res_json 201 [(''state'', JBool True),
                     (''data'', JDoc (object_id i) (set_stock product (js_sub st q)))],
       AList.update (object_id i) (set_stock product (js_sub st q)) s)"
    by (rule sell_ok [OF assms ge num])
  show "stock (set_stock product (js_sub st q)) = Some (js_sub st q)"
    by (rule stock_set_stock [OF num])
  show "findById e (snd (sellProducts e token i (Some q) s)) i =
      Inr (Some (set_stock product (js_sub st q)))"
    by (simp add: sold findById_update [OF assms(2)])
next
  assume nan: "js_sub st q = NaN"
  show "status (fst (sellProducts e token i (Some q) s)) = 500"
    by (simp add: sell_NaN [OF assms(1-3) nan] res_json_def)
  show "snd (sellProducts e token i (Some q) s) = s"
    by (simp add: sell_NaN [OF assms(1-3) nan])
next
  fix a b
  assume h: "st = whole a \<and> q = whole b \<and> \<bar>a - b\<bar> \<le> 2 ^ 53"
  then show exact: "js_sub st q = whole (a - b)" by (simp add: js_sub_whole)
  show "js_less (js_sub st q) (whole 5) \<longleftrightarrow> a - b < 5"
    by (simp only: exact js_less_whole)
qed

theorem sellProducts_floor_witness:
  "validate sample_env (Some (''Bearer '' @ sample_token)) = Inr Valid
   \<and> findById sample_env sample_store sample_id = Inr (Some sample_product)
   \<and> stock sample_product = Some (whole 10)
   \<and> validate_doc sample_product = None
   \<and> sellProducts sample_env (Some (''Bearer '' @ sample_token)) sample_id (Some (whole 6))
        sample_store =
       (res_json 400 [(''state'', JBool False), (''message'', JString ''Stock is less than 5''),
                      (''data'', JNull)], sample_store)
   \<and> sellProducts sample_env (Some (''Bearer '' @ sample_token)) sample_id (Some (whole 3))
        sample_store =
       (res_json 201 [(''state'', JBool True),
                      (''data'', JDoc sample_id (set_stock sample_product (whole 7)))],
        AList.update sample_id (set_stock sample_product (whole 7)) sample_store)
   \<and> stock (set_stock sample_product (whole 7)) = Some (whole 7)"
proof -
  note t6 = sellProducts_floor [OF sample_valid sample_found sample_stock sample_product_valid,
      where q = "whole 6"]
  note t3 = sellProducts_floor [OF sample_valid sample_found sample_stock sample_product_valid,
      where q = "whole 3"]
  have d6: "js_sub (whole 10) (whole 6) = whole 4"
    using js_sub_whole [of 10 6] by simp
  have d3: "js_sub (whole 10) (whole 3) = whole 7"
    using js_sub_whole [of 10 3] by simp
  have below: "js_less (js_sub (whole 10) (whole 6)) (whole 5)"
    by (simp only: d6 js_less_whole)
  have above: "\<not> js_less (js_sub (whole 10) (whole 3)) (whole 5) \<and>
      js_sub (whole 10) (whole 3) \<noteq> NaN"
    by (simp only: d3 js_less_whole whole_not_NaN, simp)
  note r6 = t6 [THEN conjunct1, THEN mp, OF below]
  note r3 = t3 [THEN conjunct2, THEN conjunct1, THEN mp, OF above]
  from r6 r3 sample_valid sample_found sample_stock sample_product_valid
  show ?thesis
    by (simp add: d3 sample_object_id)
qed

text \<open>
  The stock is not always exactly \<open>stock - q\<close>: from stock 11, selling \<open>- 2 ^ 53\<close> stores
  9007199254741004, whereas \<open>11 + 2 ^ 53\<close> is 9007199254741003.
\<close>

theorem sell_exact_counterexample:
  "stock sample_odd = Some (whole 11)
   \<and> map_option stock
        (map_of (snd (sellProducts sample_env (Some (''Bearer '' @ sample_token)) sample_id
                        (Some (whole (- 9007199254740992))) [(sample_id, sample_odd)]))
           sample_id) = Some (Some (whole 9007199254741004))
   \<and> whole 9007199254741004 \<noteq> whole (11 - (- 9007199254740992))"
proof -
  have d: "js_sub (whole 11) (whole (- 9007199254740992)) = whole 9007199254741004"
    using eleven_plus_2_53 by (simp add: js_sub_def whole_def)
  have "sellProducts sample_env (Some (''Bearer '' @ sample_token)) sample_id
      (Some (whole (- 9007199254740992))) [(sample_id, sample_odd)] =
      (res_json 201 [(''state'', JBool True),
                     (''data'', JDoc sample_id (set_stock sample_odd (whole 9007199254741004)))],
       [(sample_id, set_stock sample_odd (whole 9007199254741004))])"
    using sell_ok [OF sample_valid sample_odd_found sample_odd_stock sample_odd_valid,
        of "whole (- 9007199254740992)"]
    by (simp add: d js_less_whole whole_not_NaN sample_object_id)
  then show ?thesis
    by (simp add: sample_odd_stock stock_set_stock whole_not_NaN whole_eq_iff)
qed

text \<open>
  C10, as the code has it. A negative sell quantity is not rejected: for integers
  \<open>a\<close> (the stock) and \<open>b < 0\<close> with \<open>a - b \<ge> 5\<close> and \<open>a - b\<close> at most \<open>2 ^ 53\<close> the sale
  succeeds and the new stock \<open>a - b\<close> is greater than \<open>a\<close>.
\<close>

theorem sellProducts_negative_quantity:
  assumes "validate e token = Inr Valid"
    and "findById e s i = Inr (Some product)"
    and "stock product = Some (whole a)"
    and "validate_doc product = None"
    and "b < 0"
    and "5 \<le> a - b"
    and "a - b \<le> 2 ^ 53"
  shows "sellProducts e token i (Some (whole b)) s =
           (res_json 201 [(''state'', JBool True),
                          (''data'', JDoc (object_id i) (set_stock product (whole (a - b))))],
            AList.update (object_id i) (set_stock product (whole (a - b))) s)
       \<and> stock (set_stock product (whole (a - b))) = Some (whole (a - b))
       \<and> a < a - b"
proof -
  from assms(6,7) have "\<bar>a - b\<bar> \<le> 2 ^ 53" by simp
  then have d: "js_sub (whole a) (whole b) = whole (a - b)" by (rule js_sub_whole)
  have "\<not> js_less (js_sub (whole a) (whole b)) (whole 5)"
    using assms(6) by (simp add: d js_less_whole)
  moreover have "js_sub (whole a) (whole b) \<noteq> NaN" by (simp add: d whole_not_NaN)
  ultimately show ?thesis
    using sell_ok [OF assms(1-4), of "whole b"] assms(5)
    by (simp add: d stock_set_stock whole_not_NaN)
qed

theorem sellProducts_negative_quantity_witness:
  "validate sample_env (Some (''Bearer '' @ sample_token)) = Inr Valid
   \<and> findById sample_env sample_store sample_id = Inr (Some sample_product)
   \<and> stock sample_product = Some (whole 10)
   \<and> validate_doc sample_product = None
   \<and> (- 4 :: int) < 0 \<and> (5 :: int) \<le> 10 - (- 4) \<and> (10 :: int) - (- 4) \<le> 2 ^ 53
   \<and> sellProducts sample_env (Some (''Bearer '' @ sample_token)) sample_id (Some (whole (- 4)))
        sample_store =
       (res_json 201 [(''state'', JBool True),
                      (''data'', JDoc sample_id (set_stock sample_product (whole 14)))],
        AList.update sample_id (set_stock sample_product (whole 14)) sample_store)
   \<and> stock (set_stock sample_product (whole 14)) = Some (whole 14)"
  using sellProducts_negative_quantity
      [OF sample_valid sample_found sample_stock sample_product_valid, of "- 4"]
    sample_valid sample_found sample_stock sample_product_valid
  by (simp add: sample_object_id)

text \<open>
  Beyond \<open>2 ^ 53\<close> a negative quantity need not increase the stock: from stock \<open>2 ^ 53\<close>,
  selling \<open>- 1\<close> succeeds and stores \<open>2 ^ 53\<close> again.
\<close>

theorem sell_negative_counterexample:
  "stock sample_big = Some (whole 9007199254740992)
   \<and> (- 1 :: int) < 0 \<and> (5 :: int) \<le> 9007199254740992 - (- 1)
   \<and> status (fst (sellProducts sample_env (Some (''Bearer '' @ sample_token)) sample_id
                     (Some (whole (- 1))) [(sample_id, sample_big)])) = 201
   \<and> map_option stock
        (map_of (snd (sellProducts sample_env (Some (''Bearer '' @ sample_token)) sample_id
                        (Some (whole (- 1))) [(sample_id, sample_big)]))
           sample_id) = Some (Some (whole 9007199254740992))"
proof -
  have d: "js_sub (whole 9007199254740992) (whole (- 1)) = whole 9007199254740992"
    using two_53_plus_one by (simp add: js_sub_def whole_def)
  have "sellProducts sample_env (Some (''Bearer '' @ sample_token)) sample_id
      (Some (whole (- 1))) [(sample_id, sample_big)] =
      (res_json 201 [(''state'', JBool True),
                     (''data'', JDoc sample_id (set_stock sample_big (whole 9007199254740992)))],
       [(sample_id, set_stock sample_big (whole 9007199254740992))])"
    using sell_ok [OF sample_valid sample_big_found sample_big_stock sample_big_valid,
        of "whole (- 1)"]
    by (simp add: d js_less_whole whole_not_NaN sample_object_id)
  then show ?thesis
    by (simp add: sample_big_stock stock_set_stock whole_not_NaN res_json_def)
qed

section \<open>Restocking\<close>




text \<open>
  C8, as the code has it. For integers \<open>a\<close> (the stock) and \<open>b\<close> with \<open>a\<close> and \<open>a + b\<close> at
  most \<open>2 ^ 53\<close> in magnitude and \<open>(a + b) - b \<ge> 5\<close>, restocking by \<open>b\<close> and then selling
  \<open>b\<close> leaves the collection as it was, the stock back at \<open>a\<close>.
\<close>

theorem restock_then_sell_roundtrip:
  assumes "validate e token = Inr Valid"
    and "findById e s i = Inr (Some product)"
    and "stock product = Some (whole a)"
    and "validate_doc product = None"
    and "\<bar>a\<bar> \<le> 2 ^ 53"
    and "\<bar>a + b\<bar> \<le> 2 ^ 53"
    and "5 \<le> (a + b) - b"
  shows "snd (sellProducts e token i (Some (whole b))
                (snd (providerProducts e token i (Some (whole b)) s))) = s
       \<and> fst (sellProducts e token i (Some (whole b))
                (snd (providerProducts e token i (Some (whole b)) s))) =
           res_json 201 [(''state'', JBool True), (''data'', JDoc (object_id i) product)]"
proof -
  let ?p1 = "set_stock product (whole (a + b))"
  let ?s1 = "AList.update (object_id i) ?p1 s"
  have sum: "js_add (whole a) (whole b) = whole (a + b)"
    by (rule js_add_whole [OF assms(6)])
  have s1: "snd (providerProducts e token i (Some (whole b)) s) = ?s1"
    using restock_ok [OF assms(1-4), of "whole b"] by (simp add: sum whole_not_NaN)
  have found1: "findById e ?s1 i = Inr (Some ?p1)"
    by (rule findById_update [OF assms(2)])
  have st1: "stock ?p1 = Some (whole (a + b))" by (simp add: stock_set_stock whole_not_NaN)
  have ok1: "validate_doc ?p1 = None"
    by (simp add: validate_doc_set_stock whole_not_NaN assms(4))
  have diff: "js_sub (whole (a + b)) (whole b) = whole a"
    using js_sub_whole [of "a + b" b] assms(5) by simp
  have restored: "set_stock ?p1 (whole a) = product"
    by (rule set_stock_back [OF assms(3)]) (simp_all add: whole_not_NaN)
  have "AList.update (object_id i) product ?s1 = s"
    using findById_InrD [OF assms(2)] by (simp add: update_triv)
  with assms(7) restored have "sellProducts e token i (Some (whole b)) ?s1 =
      (res_json 201 [(''state'', JBool True), (''data'', JDoc (object_id i) product)], s)"
    using sell_ok [OF assms(1) found1 st1 ok1, of "whole b"]
    by (simp add: diff js_less_whole whole_not_NaN)
  then show ?thesis using s1 by simp
qed

theorem restock_then_sell_roundtrip_witness:
  "validate sample_env (Some (''Bearer '' @ sample_token)) = Inr Valid
   \<and> findById sample_env sample_store sample_id = Inr (Some sample_product)
   \<and> stock sample_product = Some (whole 10)
   \<and> validate_doc sample_product = None
   \<and> \<bar>10 :: int\<bar> \<le> 2 ^ 53 \<and> \<bar>10 + 25 :: int\<bar> \<le> 2 ^ 53 \<and> (5 :: int) \<le> (10 + 25) - 25
   \<and> snd (sellProducts sample_env (Some (''Bearer '' @ sample_token)) sample_id (Some (whole 25))
         (snd (providerProducts sample_env (Some (''Bearer '' @ sample_token)) sample_id
            (Some (whole 25)) sample_store))) = sample_store"
  using restock_then_sell_roundtrip
      [OF sample_valid sample_found sample_stock sample_product_valid, of 25]
    sample_valid sample_found sample_stock sample_product_valid
  by simp

text \<open>
  Beyond \<open>2 ^ 53\<close> the round trip fails: from stock 11, restocking by \<open>2 ^ 53\<close> and selling
  \<open>2 ^ 53\<close> leaves stock 12.
\<close>

theorem roundtrip_counterexample:
  "stock sample_odd = Some (whole 11)
   \<and> (5 :: int) \<le> (11 + 9007199254740992) - 9007199254740992
   \<and> map_option stock
        (map_of
           (snd (sellProducts sample_env (Some (''Bearer '' @ sample_token)) sample_id
                   (Some (whole 9007199254740992))
                   (snd (providerProducts sample_env (Some (''Bearer '' @ sample_token))
                           sample_id (Some (whole 9007199254740992))
                           [(sample_id, sample_odd)]))))
           sample_id) = Some (Some (whole 12))
   \<and> whole 12 \<noteq> whole 11"
proof -
  let ?p1 = "set_stock sample_odd (whole 9007199254741004)"
  have s1: "snd (providerProducts sample_env (Some (''Bearer '' @ sample_token)) sample_id
      (Some (whole 9007199254740992)) [(sample_id, sample_odd)]) = [(sample_id, ?p1)]"
    using restock_ok [OF sample_valid sample_odd_found sample_odd_stock sample_odd_valid,
        of "whole 9007199254740992"]
    by (simp add: eleven_plus_2_53 whole_not_NaN sample_object_id)
  have found1: "findById sample_env [(sample_id, ?p1)] sample_id = Inr (Some ?p1)"
    using findById_update [OF sample_odd_found, of ?p1] by (simp add: sample_object_id)
  have st1: "stock ?p1 = Some (whole 9007199254741004)"
    by (simp add: stock_set_stock whole_not_NaN)
  have ok1: "validate_doc ?p1 = None"
    by (simp add: validate_doc_set_stock whole_not_NaN sample_odd_valid)
  have diff: "js_sub (whole 9007199254741004) (whole 9007199254740992) = whole 12"
    using js_sub_whole [of 9007199254741004 9007199254740992] by simp
  have "sellProducts sample_env (Some (''Bearer '' @ sample_token)) sample_id
      (Some (whole 9007199254740992)) [(sample_id, ?p1)] =
      (res_json 201 [(''state'', JBool True),
                     (''data'', JDoc sample_id (set_stock ?p1 (whole 12)))],
       [(sample_id, set_stock ?p1 (whole 12))])"
    using sell_ok [OF sample_valid found1 st1 ok1, of "whole 9007199254740992"]
    by (simp add: diff js_less_whole whole_not_NaN sample_object_id)
  then have "snd (sellProducts sample_env (Some (''Bearer '' @ sample_token)) sample_id
      (Some (whole 9007199254740992))
      (snd (providerProducts sample_env (Some (''Bearer '' @ sample_token)) sample_id
              (Some (whole 9007199254740992)) [(sample_id, sample_odd)]))) =
      [(sample_id, set_stock ?p1 (whole 12))]"
    by (simp only: s1 snd_conv)
  then show ?thesis
    by (simp add: sample_odd_stock stock_set_stock whole_not_NaN whole_eq_iff)
qed

section \<open>Tokens\<close>

text \<open>
  C2, where the code departs from the specification. A token issued by \<open>loggin\<close> at
  instant \<open>clock e0\<close> carries the expiration \<open>clock e0 + 60 * 30000\<close>, in milliseconds.
  \<open>validate\<close> returns \<open>true\<close> at every instant up to and including
  \<open>clock e0 + 30 * 60000\<close> and "Session Expired" after it, but only until the clock in
  seconds reaches the number signed as \<open>exp\<close>: from then on \<open>jwt.verify\<close> throws, and a
  guarded route answers 500 instead of 401.
\<close>

theorem validate_issued_token:
  assumes "find (\<lambda>u. mail u = m) users = Some u" and "user.password u = pw"
    and "jwt_sign e0 \<lparr>sub = ''Token'', payload.password = pw, exp = clock e0 + 60 * 30000\<rparr>
           = Inr tok"
    and "jwt_verify e (Some tok) =
           Inr \<lparr>sub = ''Token'', payload.password = pw, exp = clock e0 + 60 * 30000\<rparr>"
    and "CHR '' '' \<notin> set tok"
    and "0 \<le> clock e0"
  shows "loggin e0 users m pw =
           res_json 200 [(''state'', JBool True), (''message'', JString ''Logged In''),
                         (''token'', JString tok)]
       \<and> (clock e \<le> clock e0 + 30 * 60000 \<longrightarrow>
            validate e (Some (''Bearer '' @ tok)) = Inr Valid)
       \<and> (clock e0 + 30 * 60000 < clock e \<and> clock e div 1000 < clock e0 + 30 * 60000 \<longrightarrow>
            validate e (Some (''Bearer '' @ tok)) = Inr (Reason ''Session Expired''))
       \<and> (clock e0 + 30 * 60000 \<le> clock e div 1000 \<longrightarrow>
            validate e (Some (''Bearer '' @ tok)) = Inl (TokenExpiredError ''jwt expired'')
          \<and> sellProducts e (Some (''Bearer '' @ tok)) i q s =
              (res_json 500 [(''state'', JBool False),
                             (''message'', JMessage (TokenExpiredError ''jwt expired''))], s))"
proof -
  have issued: "loggin e0 users m pw =
      res_json 200 [(''state'', JBool True), (''message'', JString ''Logged In''),
                    (''token'', JString tok)]"
    using assms(1-3) by (simp add: loggin_def)
  have "jwt_verify e (nth_opt (split_on (CHR '' '') (''Bearer '' @ tok)) 1) =
      Inr \<lparr>sub = ''Token'', payload.password = pw, exp = clock e0 + 60 * 30000\<rparr>"
    using assms(4) by (simp only: bearer_token [OF assms(5)])
  note v = validate_verified [OF this]
  have early: "validate e (Some (''Bearer '' @ tok)) = Inr Valid"
    if "clock e \<le> clock e0 + 30 * 60000"
  proof -
    from that assms(6) have "\<not> clock e0 + 1800000 \<le> clock e div 1000" by presburger
    with that show ?thesis unfolding v by simp
  qed
  have late: "validate e (Some (''Bearer '' @ tok)) = Inr (Reason ''Session Expired'')"
    if "clock e0 + 30 * 60000 < clock e \<and> clock e div 1000 < clock e0 + 30 * 60000"
    using that unfolding v by simp
  have thrown: "validate e (Some (''Bearer '' @ tok)) = Inl (TokenExpiredError ''jwt expired'')"
    if "clock e0 + 30 * 60000 \<le> clock e div 1000"
    using that unfolding v by simp
  have refused: "sellProducts e (Some (''Bearer '' @ tok)) i q s =
      (res_json 500 [(''state'', JBool False),
                     (''message'', JMessage (TokenExpiredError ''jwt expired''))], s)"
    if "clock e0 + 30 * 60000 \<le> clock e div 1000"
    using thrown [OF that] by (simp add: sellProducts_def internal_error_def)
  from issued early late thrown refused show ?thesis by blast
qed

theorem validate_issued_token_witness:
  "find (\<lambda>u. mail u = ''ana@example.com'') sample_users
      = Some \<lparr>mail = ''ana@example.com'', user.password = ''secret''\<rparr>
   \<and> jwt_sign (sample_env\<lparr>clock := 1000\<rparr>)
        \<lparr>sub = ''Token'', payload.password = ''secret'', exp = 1000 + 60 * 30000\<rparr> = Inr sample_token
   \<and> CHR '' '' \<notin> set sample_token
   \<and> loggin (sample_env\<lparr>clock := 1000\<rparr>) sample_users ''ana@example.com'' ''secret'' =
        res_json 200 [(''state'', JBool True), (''message'', JString ''Logged In''),
                      (''token'', JString sample_token)]
   \<and> validate (sample_env\<lparr>clock := 1801000\<rparr>) (Some (''Bearer '' @ sample_token)) = Inr Valid
   \<and> validate (sample_env\<lparr>clock := 1801001\<rparr>) (Some (''Bearer '' @ sample_token)) =
        Inr (Reason ''Session Expired'')
   \<and> validate (sample_env\<lparr>clock := 1801000000\<rparr>) (Some (''Bearer '' @ sample_token)) =
        Inl (TokenExpiredError ''jwt expired'')
   \<and> sellProducts (sample_env\<lparr>clock := 1801000000\<rparr>) (Some (''Bearer '' @ sample_token))
        sample_id (Some (whole 3)) sample_store =
        (res_json 500 [(''state'', JBool False),
                       (''message'', JMessage (TokenExpiredError ''jwt expired''))], sample_store)"
proof -
  have u: "find (\<lambda>u. mail u = ''ana@example.com'') sample_users
      = Some \<lparr>mail = ''ana@example.com'', user.password = ''secret''\<rparr>"
    by (simp add: sample_users_def)
  have p: "user.password \<lparr>mail = ''ana@example.com'', user.password = ''secret''\<rparr> = ''secret''"
    by simp
  have sg: "jwt_sign (sample_env\<lparr>clock := 1000\<rparr>)
      \<lparr>sub = ''Token'', payload.password = ''secret'',
        exp = clock (sample_env\<lparr>clock := 1000\<rparr>) + 60 * 30000\<rparr>
      = Inr sample_token"
    by (simp add: sample_env_def)
  have vf: "jwt_verify (sample_env\<lparr>clock := c\<rparr>) (Some sample_token) =
      Inr \<lparr>sub = ''Token'', payload.password = ''secret'',
           exp = clock (sample_env\<lparr>clock := 1000\<rparr>) + 60 * 30000\<rparr>" for c
    by (simp add: sample_env_def)
  have ns: "CHR '' '' \<notin> set sample_token" by (simp add: sample_token_def)
  have nn: "0 \<le> clock (sample_env\<lparr>clock := 1000\<rparr>)" by simp
  note t = validate_issued_token [OF u p sg vf ns nn]
  from t [of 1801000] t [of 1801001]
    t [of 1801000000 sample_id "Some (whole 3)" sample_store] u sg ns
  show ?thesis by simp
qed

section \<open>Authorization of the routes\<close>

text \<open>
  C3. On every route but the two reads, a result of \<open>validate\<close> other than \<open>true\<close> (one
  of the two reason strings: no header, or an expired credential) is answered with 401
  and the reason, and the collection is unchanged; so it is when \<open>validate\<close> throws. The
  two reads never call \<open>validate\<close>: their result does not depend on the header, the
  verifier or the clock.
\<close>

theorem unauthorized_changes_nothing:
  "(call req \<noteq> GetAll \<and> (\<forall>i. call req \<noteq> GetById i) \<longrightarrow>
      (\<forall>r. validate e (authorization req) = Inr (Reason r) \<longrightarrow>
            routes e req s = (res_json 401 [(''error'', JString r)], s)
          \<and> (r = ''Session Expired'' \<or>
             r = ''The session has not been logged in or the token has not been entered.''))
    \<and> (\<forall>err. validate e (authorization req) = Inl err \<longrightarrow> snd (routes e req s) = s))
   \<and> (call req = GetAll \<or> (\<exists>i. call req = GetById i) \<longrightarrow>
        routes (e\<lparr>jwt_verify := v, clock := t\<rparr>) (req\<lparr>authorization := h\<rparr>) s = routes e req s)"
proof (intro conjI impI allI)
  fix r
  assume c: "call req \<noteq> GetAll \<and> (\<forall>i. call req \<noteq> GetById i)"
    and v: "validate e (authorization req) = Inr (Reason r)"
  from c v show "routes e req s = (res_json 401 [(''error'', JString r)], s)"
    by (intro routes_unauthorized) simp_all
  from v show "r = ''Session Expired'' \<or>
      r = ''The session has not been logged in or the token has not been entered.''"
    by (rule validate_reasons)
next
  fix err
  assume c: "call req \<noteq> GetAll \<and> (\<forall>i. call req \<noteq> GetById i)"
    and v: "validate e (authorization req) = Inl err"
  from c v have "routes e req s = (internal_error err, s)"
    by (intro routes_check_throws) simp_all
  then show "snd (routes e req s) = s" by simp
next
  assume "call req = GetAll \<or> (\<exists>i. call req = GetById i)"
  then show "routes (e\<lparr>jwt_verify := v, clock := t\<rparr>) (req\<lparr>authorization := h\<rparr>) s =
      routes e req s"
    by (rule routes_reads_unchecked)
qed

theorem unauthorized_changes_nothing_witness:
  "validate (sample_env\<lparr>clock := 1801001\<rparr>) (Some (''Bearer '' @ sample_token)) =
      Inr (Reason ''Session Expired'')
   \<and> routes (sample_env\<lparr>clock := 1801001\<rparr>)
        \<lparr>authorization = Some (''Bearer '' @ sample_token),
         call = SellProducts sample_id (Some (whole 3))\<rparr> sample_store =
       (res_json 401 [(''error'', JString ''Session Expired'')], sample_store)
   \<and> routes (sample_env\<lparr>jwt_verify := (\<lambda>tok. Inl (JsonWebTokenError ''jwt malformed'')),
                          clock := 1801001\<rparr>)
        \<lparr>authorization = Some ''Bearer x'', call = GetById sample_id\<rparr> sample_store =
       routes sample_env \<lparr>authorization = None, call = GetById sample_id\<rparr> sample_store"
proof -
  have v: "validate (sample_env\<lparr>clock := 1801001\<rparr>) (Some (''Bearer '' @ sample_token)) =
      Inr (Reason ''Session Expired'')"
    by code_simp
  show ?thesis
    using unauthorized_changes_nothing
        [where req = "\<lparr>authorization = Some (''Bearer '' @ sample_token),
                       call = SellProducts sample_id (Some (whole 3))\<rparr>"
           and e = "sample_env\<lparr>clock := 1801001\<rparr>" and s = sample_store]
      unauthorized_changes_nothing
        [where req = "\<lparr>authorization = None, call = GetById sample_id\<rparr>"
           and e = sample_env and s = sample_store
           and v = "\<lambda>tok. Inl (JsonWebTokenError ''jwt malformed'')"
           and t = 1801001 and h = "Some ''Bearer x''"]
      v
    by simp
qed

section \<open>Responses that depart from the contract\<close>

lemma getById_never_404: "status (fst (getById e i s)) \<noteq> 404"
  by (simp add: getById_def res_json_def split: sum.splits)

text \<open>
  C5, where the code departs from the specification. A well-formed identifier with no stored
  product is answered by \<open>getById\<close> with 200, \<open>state: true\<close> and \<open>data: null\<close>;
  \<open>getById\<close> never answers 404, although every other lookup by id does.
\<close>

theorem getById_absent_is_success:
  "getById (e\<lparr>outage := None\<rparr>) ''65f0a1b2c3d4e5f6a7b8c9d0'' [] =
      (\<lparr>status = 200, body = [(''state'', JBool True), (''data'', JNull)]\<rparr>, [])
   \<and> status (fst (getById e i s)) \<noteq> 404"
proof
  have "is_object_id ''65f0a1b2c3d4e5f6a7b8c9d0''" by code_simp
  then show "getById (e\<lparr>outage := None\<rparr>) ''65f0a1b2c3d4e5f6a7b8c9d0'' [] =
      (\<lparr>status = 200, body = [(''state'', JBool True), (''data'', JNull)]\<rparr>, [])"
    by (simp add: getById_def findById_def res_json_def)
  show "status (fst (getById e i s)) \<noteq> 404" by (rule getById_never_404)
qed

text \<open>
  C9, where the code departs from the specification. The 401 body of a guarded route has the one
  property \<open>error\<close> and no \<open>state\<close>; and the 500 body of \<open>getAll\<close> has \<open>state\<close> alone,
  its message being read from the misspelt \<open>err.mesagge\<close>.
\<close>

theorem unauthorized_body_has_no_state:
  "save e None b s =
      (\<lparr>status = 401,
        body = [(''error'',
                 JString ''The session has not been logged in or the token has not been entered.'')]\<rparr>,
       s)
   \<and> map_of (body (fst (save e None b s))) ''state'' = None
   \<and> getAll (e\<lparr>outage := Some err\<rparr>) s = (\<lparr>status = 500, body = [(''state'', JBool False)]\<rparr>, s)"
  by (simp add: save_def validate_def unauthorized_def res_json_def getAll_def find_all_def)

text \<open>Every other response carries the boolean \<open>state\<close>.\<close>

lemma state_unless_unauthorized:
  "status (fst (routes e req s)) = 401 \<or>
   (\<exists>b. map_of (body (fst (routes e req s))) ''state'' = Some (JBool b))"
  by (cases "call req")
     (auto simp: getAll_def getById_def save_def actualize_def eliminate_def
        providerProducts_def sellProducts_def res_json_def internal_error_def not_found_def
        unauthorized_def
        split: sum.splits option.splits validation.splits prod.splits if_splits)

section \<open>Resolving the variant\<close>

lemma save_product_code:
  assumes "map_of b ''numberCategory'' = Some (Num c)"
  shows "save_product b =
     (if c = whole 1 then new_doc Electronics b else if c = whole 2 then new_doc Food b
      else if c = whole 3 then new_doc Automotive b else if c = whole 4 then new_doc Clothing b
      else new_doc Product b)"
  using assms by (simp add: save_product_def Let_def numberCategory_new_doc whole_not_NaN)

lemma save_product_no_code:
  assumes "map_of b ''numberCategory'' = None"
  shows "save_product b = new_doc Product b"
  using assms by (simp add: save_product_def Let_def numberCategory_new_doc)

lemma keys_base_doc: "fst ` set (vals (new_doc Product b)) \<subseteq> pname ` set ProductSchema"
  using keys_new_doc [of Product b] by (simp add: schema_of_def)

lemma save_rejects_invalid:
  assumes "validate e token = Inr Valid" and "x \<in> set (invalid_paths (save_product b))"
  shows "save e token b s =
     (res_json 500 [(''state'', JBool False),
                    (''message'', JMessage (ValidationError (invalid_paths (save_product b))))], s)"
  using assms(1) save_doc_invalid [OF assms(2)] by (simp add: save_def internal_error_def)

text \<open>
  C4, as the code has it. A body whose \<open>numberCategory\<close> is 1, 2, 3 or 4 is built with
  the Electronics, Food, Automotive or Clothing model; the required extra paths of the
  four models are \<open>features\<close>; \<open>ingredients\<close>, \<open>weightOrVolume\<close>; \<open>specs\<close>, \<open>modelYear\<close>;
  \<open>sizesAvaiable\<close> (so spelt), \<open>colors\<close>, \<open>material\<close>. A body that omits a required
  extra path that is not an array is rejected by \<open>save\<close> with a validation error and
  nothing is written. A body with no category code, or a code outside 1 to 4, is built
  with the base model and carries base paths only. \<open>actualize\<close> resolves the instance
  exactly as \<open>save\<close> does.
\<close>

theorem resolve_variants:
  "(map_of b ''numberCategory'' = Some (Num (whole 1)) \<longrightarrow> save_product b = new_doc Electronics b)
   \<and> (map_of b ''numberCategory'' = Some (Num (whole 2)) \<longrightarrow> save_product b = new_doc Food b)
   \<and> (map_of b ''numberCategory'' = Some (Num (whole 3)) \<longrightarrow> save_product b = new_doc Automotive b)
   \<and> (map_of b ''numberCategory'' = Some (Num (whole 4)) \<longrightarrow> save_product b = new_doc Clothing b)
   \<and> map pname (filter required (discriminator Electronics)) = [''features'']
   \<and> map pname (filter required (discriminator Food)) = [''ingredients'', ''weightOrVolume'']
   \<and> map pname (filter required (discriminator Automotive)) = [''specs'', ''modelYear'']
   \<and> map pname (filter required (discriminator Clothing)) =
        [''sizesAvaiable'', ''colors'', ''material'']
   \<and> (\<forall>p \<in> set (discriminator (kind (save_product b))).
         required p \<and> ptype p \<noteq> TStrings \<and> map_of b (pname p) = None \<longrightarrow>
           pname p \<in> set (invalid_paths (save_product b))
         \<and> (validate e token = Inr Valid \<longrightarrow>
              save e token b s =
                (res_json 500
                   [(''state'', JBool False),
                    (''message'', JMessage (ValidationError (invalid_paths (save_product b))))],
                 s)))
   \<and> (map_of b ''numberCategory'' = None
        \<or> (\<exists>c. map_of b ''numberCategory'' = Some (Num c)
              \<and> c \<notin> {whole 1, whole 2, whole 3, whole 4}) \<longrightarrow>
          save_product b = new_doc Product b
        \<and> fst ` set (vals (save_product b)) \<subseteq> pname ` set ProductSchema)
   \<and> actualize_productN b = save_product b"
proof (intro conjI ballI impI)
  fix p
  assume p: "p \<in> set (discriminator (kind (save_product b)))"
    and h: "required p \<and> ptype p \<noteq> TStrings \<and> map_of b (pname p) = None"
  have "pname p \<in> set (invalid_paths (new_doc (kind (save_product b)) b))"
    using p h by (intro omitted_invalid) simp_all
  then show bad: "pname p \<in> set (invalid_paths (save_product b))"
    using save_product_kind [of b] by simp
  assume "validate e token = Inr Valid"
  then show "save e token b s =
      (res_json 500
         [(''state'', JBool False),
          (''message'', JMessage (ValidationError (invalid_paths (save_product b))))], s)"
    using bad by (rule save_rejects_invalid)
next
  assume h: "map_of b ''numberCategory'' = None
      \<or> (\<exists>c. map_of b ''numberCategory'' = Some (Num c)
              \<and> c \<notin> {whole 1, whole 2, whole 3, whole 4})"
  then show base: "save_product b = new_doc Product b"
    by (auto simp: save_product_no_code save_product_code)
  show "fst ` set (vals (save_product b)) \<subseteq> pname ` set ProductSchema"
    unfolding base by (rule keys_base_doc)
next
  show "actualize_productN b = save_product b"
    by (simp add: actualize_productN_def save_product_def)
qed (simp_all add: save_product_code whole_eq_iff)

theorem resolve_variants_witness:
  "map_of sample_body ''numberCategory'' = Some (Num (whole 1))
   \<and> save_product sample_body = new_doc Electronics sample_body
   \<and> Path ''weightOrVolume'' TString True None \<in> set (discriminator (kind (save_product sample_food)))
   \<and> map_of sample_food ''weightOrVolume'' = None
   \<and> invalid_paths (save_product sample_food) = [''weightOrVolume'']
   \<and> save sample_env (Some (''Bearer '' @ sample_token)) sample_food sample_store =
        (res_json 500
           [(''state'', JBool False), (''message'', JMessage (ValidationError [''weightOrVolume'']))],
         sample_store)
   \<and> map_of sample_uncoded ''numberCategory'' = Some (Num (whole 9))
   \<and> save_product sample_uncoded = new_doc Product sample_uncoded
   \<and> map_of (vals (save_product sample_uncoded)) ''features'' = None"
proof -
  have c1: "map_of sample_body ''numberCategory'' = Some (Num (whole 1))" by code_simp
  have p: "Path ''weightOrVolume'' TString True None
      \<in> set (discriminator (kind (save_product sample_food)))" by code_simp
  have om: "map_of sample_food ''weightOrVolume'' = None" by code_simp
  have inv: "invalid_paths (save_product sample_food) = [''weightOrVolume'']" by code_simp
  have c9: "map_of sample_uncoded ''numberCategory'' = Some (Num (whole 9))" by code_simp
  have nf: "map_of (vals (new_doc Product sample_uncoded)) ''features'' = None" by code_simp
  note r1 = resolve_variants [where b = sample_body]
  note r2 = resolve_variants [where b = sample_food and e = sample_env
      and token = "Some (''Bearer '' @ sample_token)" and s = sample_store]
  note r9 = resolve_variants [where b = sample_uncoded]
  from r1 c1 have a: "save_product sample_body = new_doc Electronics sample_body"
    by (simp add: whole_eq_iff)
  note omitted = r2 [THEN conjunct2, THEN conjunct2, THEN conjunct2, THEN conjunct2,
      THEN conjunct2, THEN conjunct2, THEN conjunct2, THEN conjunct2, THEN conjunct1,
      THEN bspec, OF p]
  from omitted om sample_valid inv
  have b: "save sample_env (Some (''Bearer '' @ sample_token)) sample_food sample_store =
        (res_json 500
           [(''state'', JBool False), (''message'', JMessage (ValidationError [''weightOrVolume'']))],
         sample_store)"
    by simp
  from r9 c9 have c: "save_product sample_uncoded = new_doc Product sample_uncoded"
    by (simp add: whole_eq_iff)
  from a b c c1 p om inv c9 nf show ?thesis by simp
qed

text \<open>
  The required paths of Clothing are not those of the specification's table, which
  names \<open>sizesAvailable\<close>: a Clothing body that follows the table loses that value.
\<close>

theorem clothing_fields_counterexample:
  "map pname (filter required (discriminator Clothing)) \<noteq>
      [''sizesAvailable'', ''colors'', ''material'']
   \<and> map_of (vals (save_product
        [(''id'', Num (whole 4001)), (''name'', Str ''Camiseta''), (''category'', Str ''Textil''),
         (''numberCategory'', Num (whole 4)), (''price'', Num (whole 20)),
         (''sizesAvailable'', StrList [''M'']), (''colors'', StrList [''Negro'']),
         (''material'', Str ''Algodon'')])) ''sizesAvailable'' = None"
  by code_simp

section \<open>Updating\<close>

lemma actualize_productN_kind: "actualize_productN b = new_doc (kind (actualize_productN b)) b"
  by (simp add: actualize_productN_def Let_def new_doc_def)

lemma pick_init_path:
  assumes "p \<in> set (schema_of k)"
  shows "(case map_of (vals (new_doc k b)) (pname p) of Some v \<Rightarrow> [(pname p, v)] | None \<Rightarrow> []) =
         init_path b p"
  using init_path_shape [of b p] by (auto simp: map_of_new_doc [OF assms])

lemma valid_no_cast_errors: "validate_doc d = None \<Longrightarrow> cast_errors d = []"
  by (simp add: validate_doc_def invalid_paths_def split: if_splits)

lemma overwrite_complete:
  assumes "complete d" and "cast_errors d = []" and "cast_errors (new_doc (kind d) b) = []"
  shows "overwrite d (new_doc (kind d) b) = new_doc (kind d) b"
proof -
  have "concat (map (\<lambda>k. case map_of (vals (new_doc (kind d) b)) k of
                          Some v \<Rightarrow> [(k, v)] | None \<Rightarrow> [])
                   (map pname (schema_of (kind d)))) =
        concat (map (init_path b) (schema_of (kind d)))"
    unfolding map_map
    by (rule arg_cong [where f = concat], rule map_cong [OF refl]) (simp add: pick_init_path)
  then have "vals (overwrite d (new_doc (kind d) b)) = vals (new_doc (kind d) b)"
    using assms(1) by (simp add: overwrite_def complete_def new_doc_def)
  moreover have "kind (overwrite d (new_doc (kind d) b)) = kind (new_doc (kind d) b)"
    by (simp add: overwrite_def new_doc_def)
  moreover have "cast_errors (overwrite d (new_doc (kind d) b)) =
      cast_errors (new_doc (kind d) b)"
    using assms(2,3) by (simp add: overwrite_def)
  ultimately show ?thesis by simp
qed

lemma actualize_same_variant:
  assumes "validate e token = Inr Valid" and "findById e s i = Inr (Some product)"
    and "validate_doc product = None" and "complete product"
    and "kind (actualize_productN b) = kind product"
    and "cast_errors (new_doc (kind product) b) = []"
  shows "actualize e token i b s =
     (case save_doc e s (object_id i) False (new_doc (kind product) b) of
        Inl err \<Rightarrow> (internal_error err, s)
      | Inr (result, s') \<Rightarrow>
         (res_json 201 [(''state'', JBool True), (''data'', JDoc (object_id i) result)], s'))"
proof -
  have "actualize_productN b = new_doc (kind product) b"
    using actualize_productN_kind [of b] assms(5) by simp
  moreover have "overwrite product (new_doc (kind product) b) = new_doc (kind product) b"
    by (rule overwrite_complete [OF assms(4) valid_no_cast_errors [OF assms(3)] assms(6)])
  ultimately show ?thesis using assms(1,2) by (simp add: actualize_def)
qed

text \<open>
  C6, as the code has it. For an authorized update of a stored product that is valid
  and complete, with a body that resolves to the model the stored record has: when
  the instance built from the body passes validation and its \<open>id\<close> is not that of
  another record, the stored record becomes that instance (every path takes the value
  the body gives or its default, and nothing of the old record is kept), the answer is
  201 and a later lookup finds the instance; when the instance of a well-typed body
  fails validation the answer is 500 and the collection is unchanged. When no record has
  the id the answer is 404 "ID Company Not Found" and the collection is unchanged.
\<close>

theorem actualize_replaces:
  assumes "validate e token = Inr Valid"
  shows "(findById e s i = Inr (Some product) \<and> validate_doc product = None
            \<and> complete product \<and> kind (actualize_productN b) = kind product \<longrightarrow>
            actualize_productN b = new_doc (kind product) b
          \<and> (validate_doc (new_doc (kind product) b) = None
              \<and> \<not> id_taken s (object_id i) (new_doc (kind product) b) \<longrightarrow>
                actualize e token i b s =
                  (res_json 201 [(''state'', JBool True),
                                 (''data'', JDoc (object_id i) (new_doc (kind product) b))],
                   AList.update (object_id i) (new_doc (kind product) b) s)
              \<and> findById e (snd (actualize e token i b s)) i =
                  Inr (Some (new_doc (kind product) b)))
          \<and> (cast_errors (new_doc (kind product) b) = []
              \<and> validate_doc (new_doc (kind product) b) \<noteq> None \<longrightarrow>
                actualize e token i b s =
                  (res_json 500
                     [(''state'', JBool False),
                      (''message'',
                       JMessage (ValidationError (invalid_paths (new_doc (kind product) b))))],
                   s)))
       \<and> (findById e s i = Inr None \<longrightarrow>
            actualize e token i b s =
              (res_json 404 [(''state'', JBool False),
                             (''message'', JString ''ID Company Not Found''),
                             (''data'', JNull)], s))"
proof (intro conjI impI)
  assume h: "findById e s i = Inr (Some product) \<and> validate_doc product = None
      \<and> complete product \<and> kind (actualize_productN b) = kind product"
  then have found: "findById e s i = Inr (Some product)" and ok: "validate_doc product = None"
    and full: "complete product" and same: "kind (actualize_productN b) = kind product"
    by simp_all
  show "actualize_productN b = new_doc (kind product) b"
    using actualize_productN_kind [of b] same by simp
  {
    assume v: "validate_doc (new_doc (kind product) b) = None
        \<and> \<not> id_taken s (object_id i) (new_doc (kind product) b)"
    from found have up: "outage e = None" by (auto dest: findById_InrD)
    from v have "cast_errors (new_doc (kind product) b) = []"
      by (simp add: valid_no_cast_errors)
    from actualize_same_variant [OF assms found ok full same this] v up
    show written: "actualize e token i b s =
        (res_json 201 [(''state'', JBool True),
                       (''data'', JDoc (object_id i) (new_doc (kind product) b))],
         AList.update (object_id i) (new_doc (kind product) b) s)"
      by (simp add: save_doc_def)
    show "findById e (snd (actualize e token i b s)) i = Inr (Some (new_doc (kind product) b))"
      by (simp add: written findById_update [OF found])
  }
  {
    assume v: "cast_errors (new_doc (kind product) b) = []
        \<and> validate_doc (new_doc (kind product) b) \<noteq> None"
    then have c: "cast_errors (new_doc (kind product) b) = []" by simp
    from actualize_same_variant [OF assms found ok full same c] v
    show "actualize e token i b s =
        (res_json 500
           [(''state'', JBool False),
            (''message'', JMessage (ValidationError (invalid_paths (new_doc (kind product) b))))],
         s)"
      by (auto simp: save_doc_def validate_doc_def internal_error_def split: if_splits)
  }
next
  assume "findById e s i = Inr None"
  from actualize_not_found [OF assms this]
  show "actualize e token i b s =
      (res_json 404 [(''state'', JBool False), (''message'', JString ''ID Company Not Found''),
                     (''data'', JNull)], s)"
    by (simp add: not_found_def)
qed

theorem actualize_replaces_witness:
  "validate sample_env (Some (''Bearer '' @ sample_token)) = Inr Valid
   \<and> findById sample_env sample_store sample_id = Inr (Some sample_product)
   \<and> validate_doc sample_product = None \<and> complete sample_product
   \<and> kind (actualize_productN sample_update) = kind sample_product
   \<and> kind sample_product = Electronics
   \<and> stock sample_product = Some (whole 10)
   \<and> actualize sample_env (Some (''Bearer '' @ sample_token)) sample_id sample_update sample_store =
       (res_json 201 [(''state'', JBool True),
                      (''data'', JDoc sample_id (new_doc Electronics sample_update))],
        [(sample_id, new_doc Electronics sample_update)])
   \<and> stock (new_doc Electronics sample_update) = Some (whole 50)
   \<and> actualize sample_env (Some (''Bearer '' @ sample_token)) sample_id sample_codeonly
        sample_store =
       (res_json 500 [(''state'', JBool False),
                      (''message'',
                       JMessage (ValidationError [''id'', ''name'', ''category'', ''price'']))],
        sample_store)
   \<and> findById sample_env sample_store ''65f0a1b2c3d4e5f6a7b8c9ff'' = Inr None
   \<and> actualize sample_env (Some (''Bearer '' @ sample_token)) ''65f0a1b2c3d4e5f6a7b8c9ff''
        sample_update sample_store =
       (res_json 404 [(''state'', JBool False), (''message'', JString ''ID Company Not Found''),
                      (''data'', JNull)], sample_store)"
proof -
  have k: "kind sample_product = Electronics" by (simp add: sample_product_def new_doc_def)
  have same: "kind (actualize_productN sample_update) = kind sample_product" by code_simp
  have same': "kind (actualize_productN sample_codeonly) = kind sample_product" by code_simp
  have ok: "validate_doc (new_doc (kind sample_product) sample_update) = None
      \<and> \<not> id_taken sample_store (object_id sample_id) (new_doc (kind sample_product) sample_update)"
    by code_simp
  have bad: "cast_errors (new_doc (kind sample_product) sample_codeonly) = []
      \<and> validate_doc (new_doc (kind sample_product) sample_codeonly) \<noteq> None"
    by code_simp
  have paths: "invalid_paths (new_doc Electronics sample_codeonly) =
      [''id'', ''name'', ''category'', ''price'']"
    by code_simp
  have st: "stock (new_doc Electronics sample_update) = Some (whole 50)" by code_simp
  note r = actualize_replaces [OF sample_valid, where s = sample_store]
  note pre = conjI [OF sample_found conjI [OF sample_product_valid
      conjI [OF sample_product_complete same]]]
  note pre' = conjI [OF sample_found conjI [OF sample_product_valid
      conjI [OF sample_product_complete same']]]
  note written = r [where i = sample_id and product = sample_product and b = sample_update,
      THEN conjunct1, THEN mp, OF pre, THEN conjunct2, THEN conjunct1, THEN mp, OF ok,
      THEN conjunct1]
  note refused = r [where i = sample_id and product = sample_product and b = sample_codeonly,
      THEN conjunct1, THEN mp, OF pre', THEN conjunct2, THEN conjunct2, THEN mp, OF bad]
  note gone = r [where i = "''65f0a1b2c3d4e5f6a7b8c9ff''" and b = sample_update,
      THEN conjunct2, THEN mp, OF sample_absent]
  from written refused gone sample_valid sample_found sample_product_valid
    sample_product_complete same k sample_stock st sample_absent
  show ?thesis
    by (simp add: k paths sample_object_id sample_store_def)
qed

text \<open>
  The update is not a full replace for every body. A complete Food body sent to the
  stored Electronics product is answered 500 and nothing is replaced; an Electronics
  body sent to a stored base record is answered 201, and the record stays a base record
  without the body's \<open>features\<close>.
\<close>

theorem actualize_counterexample:
  "validate_doc (new_doc Food sample_food_full) = None
   \<and> actualize sample_env (Some (''Bearer '' @ sample_token)) sample_id sample_food_full
        sample_store =
       (res_json 500 [(''state'', JBool False),
                      (''message'', JMessage (ValidationError [''features'']))], sample_store)
   \<and> status (fst (actualize sample_env (Some (''Bearer '' @ sample_token)) sample_id
                     sample_update [(sample_id, sample_base)])) = 201
   \<and> map_option kind
        (map_of (snd (actualize sample_env (Some (''Bearer '' @ sample_token)) sample_id
                        sample_update [(sample_id, sample_base)])) sample_id) = Some Product
   \<and> map_option (\<lambda>d. map_of (vals d) ''features'')
        (map_of (snd (actualize sample_env (Some (''Bearer '' @ sample_token)) sample_id
                        sample_update [(sample_id, sample_base)])) sample_id) = Some None
   \<and> map_of (vals (actualize_productN sample_update)) ''features'' = Some (StrList [''y'', ''z''])"
  by code_simp

end
